theory Spec2Isabelle
  imports Main
begin

section \<open>Strings\<close>

text \<open>
  A JavaScript string is modelled by the bytes of its UTF-8 encoding, as a HOL
  \<^typ>\<open>string\<close>. Every well-formed string (one without a lone surrogate) has exactly
  one such representation; an ASCII string is represented by itself.
\<close>

fun startsWith :: "string \<Rightarrow> string \<Rightarrow> bool" where
  "startsWith s [] = True"
| "startsWith [] (p # ps) = False"
| "startsWith (c # cs) (p # ps) = (c = p \<and> startsWith cs ps)"

text \<open>\<^verbatim>\<open>s.includes(sub)\<close>.\<close>

fun includes_str :: "string \<Rightarrow> string \<Rightarrow> bool" where
  "includes_str [] sub = (sub = [])"
| "includes_str (c # cs) sub = (startsWith (c # cs) sub \<or> includes_str cs sub)"

text \<open>
  The white space and line terminators that \<^verbatim>\<open>String.prototype.trim\<close> removes, each as
  its UTF-8 bytes: U+0009 to U+000D, U+0020, U+00A0, U+1680, U+2000 to U+200A, U+2028,
  U+2029, U+202F, U+205F, U+3000 and U+FEFF.
\<close>

definition whiteSpace :: "string list" where
  "whiteSpace =
    [[CHR 0x09], [CHR 0x0A], [CHR 0x0B], [CHR 0x0C], [CHR 0x0D], [CHR 0x20],
     [CHR 0xC2, CHR 0xA0], [CHR 0xE1, CHR 0x9A, CHR 0x80],
     [CHR 0xE2, CHR 0x80, CHR 0x80], [CHR 0xE2, CHR 0x80, CHR 0x81],
     [CHR 0xE2, CHR 0x80, CHR 0x82], [CHR 0xE2, CHR 0x80, CHR 0x83],
     [CHR 0xE2, CHR 0x80, CHR 0x84], [CHR 0xE2, CHR 0x80, CHR 0x85],
     [CHR 0xE2, CHR 0x80, CHR 0x86], [CHR 0xE2, CHR 0x80, CHR 0x87],
     [CHR 0xE2, CHR 0x80, CHR 0x88], [CHR 0xE2, CHR 0x80, CHR 0x89],
     [CHR 0xE2, CHR 0x80, CHR 0x8A], [CHR 0xE2, CHR 0x80, CHR 0xA8],
     [CHR 0xE2, CHR 0x80, CHR 0xA9], [CHR 0xE2, CHR 0x80, CHR 0xAF],
     [CHR 0xE2, CHR 0x81, CHR 0x9F], [CHR 0xE3, CHR 0x80, CHR 0x80],
     [CHR 0xEF, CHR 0xBB, CHR 0xBF]]"

text \<open>The length of the white-space character a string starts with, or 0.\<close>

definition leadingWhiteSpace :: "string \<Rightarrow> nat" where
  "leadingWhiteSpace s =
    (case filter (startsWith s) whiteSpace of [] \<Rightarrow> 0 | w # _ \<Rightarrow> length w)"

fun trimStart_fuel :: "nat \<Rightarrow> string \<Rightarrow> string" where
  "trimStart_fuel 0 s = s"
| "trimStart_fuel (Suc n) s =
    (if leadingWhiteSpace s = 0 then s else trimStart_fuel n (drop (leadingWhiteSpace s) s))"

text \<open>
  Every round removes at least one byte, so \<open>length s\<close> rounds strip all leading
  white space.
\<close>

definition trimStart :: "string \<Rightarrow> string" where
  "trimStart s = trimStart_fuel (length s) s"

text \<open>
  UTF-8 is self-synchronising: a white-space character ends the string exactly when its
  reversed bytes start the reversed string.
\<close>

definition trailingWhiteSpace :: "string \<Rightarrow> nat" where
  "trailingWhiteSpace s =
    (case filter (\<lambda>w. startsWith (rev s) (rev w)) whiteSpace of [] \<Rightarrow> 0 | w # _ \<Rightarrow> length w)"

fun trimEnd_fuel :: "nat \<Rightarrow> string \<Rightarrow> string" where
  "trimEnd_fuel 0 s = s"
| "trimEnd_fuel (Suc n) s =
    (if trailingWhiteSpace s = 0 then s
     else trimEnd_fuel n (take (length s - trailingWhiteSpace s) s))"

definition trimEnd :: "string \<Rightarrow> string" where
  "trimEnd s = trimEnd_fuel (length s) s"

definition trim :: "string \<Rightarrow> string" where
  "trim s = trimEnd (trimStart s)"

section \<open>Data model (types.ts, App.tsx)\<close>

text \<open>\<^verbatim>\<open>'image' | 'video'\<close>\<close>

datatype visual_type = Image | Video

text \<open>\<^verbatim>\<open>type VideoStyle = 'animation' | 'realistic' | 'documentary'\<close>\<close>

datatype VideoStyle = Animation | Realistic | Documentary

record SimulationStep =
  title :: string
  description :: string
  prompt :: string
  type :: visual_type

record LoadingState =
  plan :: bool
  visual :: bool

text \<open>
  \<open>vtype\<close> is the field \<^verbatim>\<open>type\<close> of \<^verbatim>\<open>VisualContent\<close>; \<open>mimeType\<close> is optional
  (set for images only).
\<close>

record VisualContent =
  vtype :: visual_type
  data :: string
  mimeType :: "string option"

text \<open>
  The state of the \<^verbatim>\<open>App\<close> component (its seven \<^verbatim>\<open>useState\<close> cells) together with
  \<^verbatim>\<open>window.location.search\<close>, the one piece of browser state the component writes.
\<close>

record AppState =
  topic :: string
  simulationPlan :: "SimulationStep list"
  currentStepIndex :: int
  visualContent :: "VisualContent option"
  loading :: LoadingState
  videoStatus :: string
  error :: "string option"
  location_search :: string

definition initialState :: "string \<Rightarrow> AppState" where
  "initialState search =
    \<lparr>topic = [], simulationPlan = [], currentStepIndex = 0, visualContent = None,
     loading = \<lparr>plan = False, visual = False\<rparr>, videoStatus = [], error = None,
     location_search = search\<rparr>"

text \<open>
  A thrown value: an \<^verbatim>\<open>Error\<close> with its message, or a value that is not an instance of
  \<^verbatim>\<open>Error\<close>.
\<close>

datatype exn = Error string | NonError

text \<open>\<^verbatim>\<open>e instanceof Error ? e.message : fallback\<close>\<close>

fun errorMessage :: "exn \<Rightarrow> string \<Rightarrow> string" where
  "errorMessage (Error m) fallback = m"
| "errorMessage NonError fallback = fallback"

text \<open>
  \<^verbatim>\<open>xs[i]\<close> for an integer index: \<^verbatim>\<open>undefined\<close> (here \<open>None\<close>) outside the array.
\<close>

definition at_index :: "'a list \<Rightarrow> int \<Rightarrow> 'a option" where
  "at_index xs i = (if 0 \<le> i \<and> i < int (length xs) then Some (xs ! nat i) else None)"

text \<open>\<^verbatim>\<open>simulationPlan[currentStepIndex]\<close>, the current step.\<close>

definition currentStep :: "AppState \<Rightarrow> SimulationStep option" where
  "currentStep s = at_index (simulationPlan s) (currentStepIndex s)"

section \<open>Content service (services/geminiService.ts)\<close>

text \<open>
  The generative-AI endpoint and \<^verbatim>\<open>fetch\<close> are outside the repository: the model takes
  their replies as a parameter. A reply is \<open>Inl\<close> of the value a rejected call throws or
  \<open>Inr\<close> of the response. The prompt a function builds is a fixed text around its
  arguments, so a reply is given as a function of those arguments.

  \<^item> \<open>plan_reply\<close>: \<^verbatim>\<open>response.text\<close> of the plan request for a topic and a type;
  \<^item> \<open>image_reply\<close>, \<open>edit_reply\<close>: \<^verbatim>\<open>response.candidates?.[0]?.content?.parts || []\<close>,
    each part by its \<^verbatim>\<open>inlineData\<close> (data, mimeType), if it has one;
  \<^item> \<open>generateVideos\<close>: the operation the video job starts with;
  \<^item> \<open>getVideosOperation k\<close>: the reply to the \<open>k\<close>-th status poll, counted from 0;
  \<^item> \<open>fetch\<close>: the reply to the download request;
  \<^item> \<open>API_KEY\<close>: \<^verbatim>\<open>process.env.API_KEY\<close>.
\<close>

text \<open>
  \<open>video_uri\<close> is \<^verbatim>\<open>operation.response?.generatedVideos?.[0]?.video?.uri\<close>.
\<close>

record operation =
  op_done :: bool
  video_uri :: "string option"

text \<open>
  \<open>blob\<close> is the outcome of \<^verbatim>\<open>response.blob()\<close>, the blob given by the object URL
  \<^verbatim>\<open>URL.createObjectURL\<close> makes for it.
\<close>

record fetch_response =
  ok :: bool
  statusText :: string
  blob :: "exn + string"

record ai_service =
  plan_reply :: "string \<Rightarrow> visual_type \<Rightarrow> exn + string"
  image_reply :: "string \<Rightarrow> exn + (string \<times> string) option list"
  edit_reply :: "string option \<Rightarrow> string \<Rightarrow> string \<Rightarrow> exn + (string \<times> string) option list"
  generateVideos :: "string \<Rightarrow> VideoStyle \<Rightarrow> exn + operation"
  getVideosOperation :: "nat \<Rightarrow> exn + operation"
  fetch :: "string \<Rightarrow> exn + fetch_response"
  API_KEY :: string

subsection \<open>generateSimulationPlan\<close>

text \<open>
  \<^verbatim>\<open>JSON.parse\<close> is the platform's: the model takes it as a parameter, \<open>None\<close> where it
  throws and otherwise the parsed value, read at the type the function declares for its
  result, \<^verbatim>\<open>SimulationStep[]\<close>: an array of objects with the properties \<^verbatim>\<open>title\<close>,
  \<^verbatim>\<open>description\<close>, \<^verbatim>\<open>prompt\<close> and \<^verbatim>\<open>type\<close>, created in this order, which is the
  order of the response schema. The function checks nothing of the parsed value: it
  returns a reply that parses to any other value as it is, and such a result has no
  value of this type.
\<close>

definition generateSimulationPlan ::
    "ai_service \<Rightarrow> (string \<Rightarrow> SimulationStep list option) \<Rightarrow> string \<Rightarrow> visual_type
      \<Rightarrow> exn + SimulationStep list" where
  "generateSimulationPlan ai JSON_parse topic_in simulationType =
    (case plan_reply ai topic_in simulationType of
       Inl e \<Rightarrow> Inl e
     | Inr response_text \<Rightarrow>
         (case JSON_parse (trim response_text) of
            Some p \<Rightarrow> Inr p
          | None \<Rightarrow>
              Inl (Error ''The AI returned an invalid lesson plan format. Please try again.'')))"

subsection \<open>generateImage, editImage\<close>

text \<open>The loop over the parts: the first part with \<^verbatim>\<open>inlineData\<close>.\<close>

fun firstInlineData :: "(string \<times> string) option list \<Rightarrow> (string \<times> string) option" where
  "firstInlineData [] = None"
| "firstInlineData (Some inlineData # parts) = Some inlineData"
| "firstInlineData (None # parts) = firstInlineData parts"

definition generateImage :: "ai_service \<Rightarrow> string \<Rightarrow> exn + string \<times> string" where
  "generateImage ai prompt_in =
    (case image_reply ai prompt_in of
       Inl e \<Rightarrow> Inl e
     | Inr parts \<Rightarrow>
         (case firstInlineData parts of
            Some inlineData \<Rightarrow> Inr inlineData
          | None \<Rightarrow> Inl (Error ''Image generation failed. No image data received.'')))"

definition editImage ::
    "ai_service \<Rightarrow> string option \<Rightarrow> string \<Rightarrow> string \<Rightarrow> exn + string \<times> string" where
  "editImage ai base64Image mime prompt_in =
    (case edit_reply ai base64Image mime prompt_in of
       Inl e \<Rightarrow> Inl e
     | Inr parts \<Rightarrow>
         (case firstInlineData parts of
            Some inlineData \<Rightarrow> Inr inlineData
          | None \<Rightarrow> Inl (Error ''Image editing failed. No image data received.'')))"

subsection \<open>generateVideo\<close>

definition videoGenerationMessages :: "string list" where
  "videoGenerationMessages =
    [''Initializing the virtual microscope...'',
     ''Sequencing bio-data for simulation...'',
     ''Assembling cellular structures...'',
     ''Simulating biological processes...'',
     ''Rendering high-fidelity animation...'',
     ''This can take a few minutes, the result will be worth it!'',
     ''Finalizing video output...'',
     ''Almost there...'']"

text \<open>
  The polling loop \<^verbatim>\<open>while (!operation.done) { ... }\<close>. \<open>polled\<close> counts the status
  polls made so far; \<open>progress\<close> collects the messages handed to \<^verbatim>\<open>onProgress\<close>, in
  order. The loop has no bound: where the job never reports completion the function
  does not return, which is the value \<open>None\<close>. The ten seconds between two polls are
  not modelled.
\<close>

partial_function (option) poll_loop ::
    "(nat \<Rightarrow> exn + operation) \<Rightarrow> nat \<Rightarrow> operation \<Rightarrow> nat \<Rightarrow> string list
      \<Rightarrow> ((exn + operation) \<times> string list) option" where
  "poll_loop poll polled operation messageIndex progress =
    (if \<not> op_done operation then
       (case poll polled of
          Inl e \<Rightarrow>
            Some (Inl e,
              progress @ [videoGenerationMessages ! (messageIndex mod length videoGenerationMessages)])
        | Inr operation' \<Rightarrow>
            poll_loop poll (Suc polled) operation' (messageIndex + 1)
              (progress @ [videoGenerationMessages ! (messageIndex mod length videoGenerationMessages)]))
     else Some (Inr operation, progress))"

text \<open>The part of \<^verbatim>\<open>generateVideo\<close> after the loop.\<close>

definition downloadVideo ::
    "ai_service \<Rightarrow> operation \<Rightarrow> string list \<Rightarrow> string list \<times> (exn + string)" where
  "downloadVideo ai operation progress =
    (case video_uri operation of
       None \<Rightarrow> (progress, Inl (Error ''Video generation failed to produce a download link.''))
     | Some downloadLink \<Rightarrow>
         if downloadLink = [] then
           (progress, Inl (Error ''Video generation failed to produce a download link.''))
         else
           (case fetch ai (downloadLink @ ''&key='' @ API_KEY ai) of
              Inl e \<Rightarrow> (progress @ [''Fetching generated video...''], Inl e)
            | Inr response \<Rightarrow>
                if \<not> ok response then
                  (progress @ [''Fetching generated video...''],
                   Inl (Error (''Failed to download video: '' @ statusText response)))
                else (progress @ [''Fetching generated video...''], blob response)))"

text \<open>
  The result is the list of the messages handed to \<^verbatim>\<open>onProgress\<close>, in order, and the
  outcome of the promise; \<open>None\<close> when the function never returns.
\<close>

definition generateVideo ::
    "ai_service \<Rightarrow> string \<Rightarrow> VideoStyle \<Rightarrow> (string list \<times> (exn + string)) option" where
  "generateVideo ai prompt_in style =
    (case generateVideos ai prompt_in style of
       Inl e \<Rightarrow> Some ([videoGenerationMessages ! 0], Inl e)
     | Inr operation \<Rightarrow>
         (case poll_loop (getVideosOperation ai) 0 operation 1 [videoGenerationMessages ! 0] of
            None \<Rightarrow> None
          | Some (Inl e, progress) \<Rightarrow> Some (progress, Inl e)
          | Some (Inr operation', progress) \<Rightarrow> Some (downloadVideo ai operation' progress)))"

section \<open>Visual generation orchestrator (App.tsx)\<close>

text \<open>
  An \<^verbatim>\<open>async\<close> handler runs synchronously up to its first \<^verbatim>\<open>await\<close> and resumes when
  the awaited call of the content service settles. Each handler is therefore two
  functions: \<open>_begin\<close> gives the state after the synchronous part and the call that is
  awaited (\<open>None\<close> when the handler returns without a call), \<open>_settle\<close> gives the state
  after the rest of the handler, from the outcome of the call and the state at that
  moment. The outcome of a call is \<open>Inl\<close> of the thrown value or \<open>Inr\<close> of the result.
\<close>

datatype request =
  GenerateSimulationPlan string visual_type
| GenerateImage string
| GenerateVideo string VideoStyle
| EditImage "string option" string string

subsection \<open>handleTopicSubmit\<close>

text \<open>
  \<^verbatim>\<open>window.history.replaceState({}, document.title, window.location.pathname)\<close>
  leaves the page at its path, with no query.
\<close>

definition handleTopicSubmit_begin :: "string \<Rightarrow> visual_type \<Rightarrow> AppState \<Rightarrow> AppState \<times> request" where
  "handleTopicSubmit_begin newTopic simulationType s =
    (let s1 = (if includes_str (location_search s) ''simulation=''
               then s\<lparr>location_search := []\<rparr> else s)
     in (s1\<lparr>topic := newTopic, simulationPlan := [], currentStepIndex := 0,
            visualContent := None, error := None,
            loading := \<lparr>plan = True, visual = False\<rparr>\<rparr>,
         GenerateSimulationPlan newTopic simulationType))"

definition handleTopicSubmit_settle :: "exn + SimulationStep list \<Rightarrow> AppState \<Rightarrow> AppState" where
  "handleTopicSubmit_settle outcome s =
    (let s1 = (case outcome of
                 Inr p \<Rightarrow>
                   if length p > 0 then s\<lparr>simulationPlan := p\<rparr>
                   else s\<lparr>error := Some ''Could not generate a simulation plan for this topic. Please try another one.''\<rparr>
               | Inl e \<Rightarrow> s\<lparr>error := Some (errorMessage e ''An unknown error occurred.'')\<rparr>)
     in s1\<lparr>loading := \<lparr>plan = False, visual = False\<rparr>\<rparr>)"

subsection \<open>generateVisualForCurrentStep\<close>

text \<open>\<^verbatim>\<open>setVideoStatus\<close>, the \<^verbatim>\<open>onProgress\<close> callback handed to \<^verbatim>\<open>generateVideo\<close>.\<close>

definition setVideoStatus :: "string \<Rightarrow> AppState \<Rightarrow> AppState" where
  "setVideoStatus message s = s\<lparr>videoStatus := message\<rparr>"

text \<open>
  The synchronous part ends at the first \<^verbatim>\<open>await\<close> of the function that is called.
  \<^verbatim>\<open>generateImage\<close> awaits its request at once. \<^verbatim>\<open>generateVideo\<close> first hands the
  first message of its list to \<^verbatim>\<open>onProgress\<close>, which is \<^verbatim>\<open>setVideoStatus\<close>, and then
  awaits the submission of the job: for a video step the state in which the request is
  pending holds that message as its video status.
\<close>

definition generateVisualForCurrentStep_begin ::
    "VideoStyle option \<Rightarrow> AppState \<Rightarrow> AppState \<times> request option" where
  "generateVisualForCurrentStep_begin styleOverride s =
    (if length (simulationPlan s) = 0 then (s, None)
     else case at_index (simulationPlan s) (currentStepIndex s) of
       None \<Rightarrow> (s, None)
     | Some step \<Rightarrow>
         (let s1 = s\<lparr>loading := (loading s)\<lparr>visual := True\<rparr>, visualContent := None,
                     error := None, videoStatus := []\<rparr>
          in case type step of
               Image \<Rightarrow> (s1, Some (GenerateImage (prompt step)))
             | Video \<Rightarrow>
                 (setVideoStatus (videoGenerationMessages ! 0) s1,
                  Some (GenerateVideo (prompt step)
                          (case styleOverride of None \<Rightarrow> Animation | Some st \<Rightarrow> st)))))"

text \<open>\<^verbatim>\<open>`data:${mimeType};base64,${base64}`\<close>\<close>

definition imageDataUrl :: "string \<Rightarrow> string \<Rightarrow> string" where
  "imageDataUrl mime base64 = ''data:'' @ mime @ '';base64,'' @ base64"

text \<open>The rest of the handler after \<^verbatim>\<open>await generateImage(...)\<close>: a pair (base64, mimeType).\<close>

definition generateVisual_image_settle :: "exn + string \<times> string \<Rightarrow> AppState \<Rightarrow> AppState" where
  "generateVisual_image_settle outcome s =
    (let s1 = (case outcome of
                 Inr (base64, mime) \<Rightarrow>
                   s\<lparr>visualContent :=
                       Some \<lparr>vtype = Image, data = imageDataUrl mime base64, mimeType = Some mime\<rparr>\<rparr>
               | Inl e \<Rightarrow> s\<lparr>error := Some (errorMessage e ''Failed to generate visual content.'')\<rparr>)
     in s1\<lparr>loading := (loading s1)\<lparr>visual := False\<rparr>, videoStatus := []\<rparr>)"

text \<open>The rest of the handler after \<^verbatim>\<open>await generateVideo(...)\<close>.\<close>

definition generateVisual_video_settle :: "exn + string \<Rightarrow> AppState \<Rightarrow> AppState" where
  "generateVisual_video_settle outcome s =
    (let s1 = (case outcome of
                 Inr videoUrl \<Rightarrow>
                   s\<lparr>visualContent := Some \<lparr>vtype = Video, data = videoUrl, mimeType = None\<rparr>\<rparr>
               | Inl e \<Rightarrow> s\<lparr>error := Some (errorMessage e ''Failed to generate visual content.'')\<rparr>)
     in s1\<lparr>loading := (loading s1)\<lparr>visual := False\<rparr>, videoStatus := []\<rparr>)"

text \<open>
  The effect with dependencies \<^verbatim>\<open>[currentStepIndex, simulationPlan.length]\<close>: after a
  render in which one of the two differs from the render before, it calls
  \<^verbatim>\<open>generateVisualForCurrentStep()\<close> when the plan is not empty. \<open>before\<close> is the state of
  the previous render, \<open>s\<close> the state of this one.
\<close>

definition visual_effect :: "AppState \<Rightarrow> AppState \<Rightarrow> AppState \<times> request option" where
  "visual_effect before s =
    (if currentStepIndex s \<noteq> currentStepIndex before
        \<or> length (simulationPlan s) \<noteq> length (simulationPlan before)
     then (if length (simulationPlan s) > 0 then generateVisualForCurrentStep_begin None s
           else (s, None))
     else (s, None))"

definition handleVideoRegenerate :: "VideoStyle \<Rightarrow> AppState \<Rightarrow> AppState \<times> request option" where
  "handleVideoRegenerate newStyle s = generateVisualForCurrentStep_begin (Some newStyle) s"

subsection \<open>handleImageEdit\<close>

text \<open>\<^verbatim>\<open>s.split(',')[1]\<close>: the text between the first and the second comma, if any.\<close>

definition split_comma_1 :: "string \<Rightarrow> string option" where
  "split_comma_1 s =
    (case dropWhile (\<lambda>c. c \<noteq> CHR '','') s of
       [] \<Rightarrow> None
     | _ # rest \<Rightarrow> Some (takeWhile (\<lambda>c. c \<noteq> CHR '','') rest))"

definition handleImageEdit_begin :: "string \<Rightarrow> AppState \<Rightarrow> AppState \<times> request option" where
  "handleImageEdit_begin editPrompt s =
    (case visualContent s of
       None \<Rightarrow> (s, None)
     | Some vc \<Rightarrow>
         (case mimeType vc of
            None \<Rightarrow> (s, None)
          | Some mime \<Rightarrow>
              if vtype vc \<noteq> Image \<or> mime = [] then (s, None)
              else (s\<lparr>loading := (loading s)\<lparr>visual := True\<rparr>, error := None\<rparr>,
                    Some (EditImage (split_comma_1 (data vc)) mime editPrompt))))"

definition handleImageEdit_settle :: "exn + string \<times> string \<Rightarrow> AppState \<Rightarrow> AppState" where
  "handleImageEdit_settle outcome s =
    (let s1 = (case outcome of
                 Inr (base64, mime) \<Rightarrow>
                   s\<lparr>visualContent :=
                       Some \<lparr>vtype = Image, data = imageDataUrl mime base64, mimeType = Some mime\<rparr>\<rparr>
               | Inl e \<Rightarrow> s\<lparr>error := Some (errorMessage e ''Failed to edit image.'')\<rparr>)
     in s1\<lparr>loading := (loading s1)\<lparr>visual := False\<rparr>\<rparr>)"

subsection \<open>goToStep\<close>

definition goToStep :: "int \<Rightarrow> AppState \<Rightarrow> AppState" where
  "goToStep index s =
    (if index \<ge> 0 \<and> index < int (length (simulationPlan s))
     then s\<lparr>currentStepIndex := index\<rparr> else s)"

section \<open>The controls (TopicInput.tsx, SimulationViewer.tsx)\<close>

text \<open>\<^verbatim>\<open>TopicInput\<close>'s \<^verbatim>\<open>handleSubmit\<close>; its \<^verbatim>\<open>loading\<close> property is \<^verbatim>\<open>loading.plan\<close>.\<close>

definition TopicInput_handleSubmit ::
    "string \<Rightarrow> visual_type \<Rightarrow> AppState \<Rightarrow> AppState \<times> request option" where
  "TopicInput_handleSubmit text_in simulationType s =
    (if trim text_in \<noteq> [] \<and> \<not> plan (loading s)
     then (case handleTopicSubmit_begin (trim text_in) simulationType s of
             (s1, r) \<Rightarrow> (s1, Some r))
     else (s, None))"

text \<open>
  \<^verbatim>\<open>SimulationViewer\<close> renders its two panels unless the topic is empty, the plan is
  loading or the plan is empty.
\<close>

definition viewer_rendered :: "AppState \<Rightarrow> bool" where
  "viewer_rendered s =
    (\<not> (topic s = [] \<and> \<not> plan (loading s)) \<and> \<not> plan (loading s)
     \<and> \<not> (length (simulationPlan s) = 0 \<and> \<not> plan (loading s)))"

text \<open>
  The error message on the screen. \<^verbatim>\<open>App\<close> hands \<^verbatim>\<open>error\<close> to \<^verbatim>\<open>SimulationViewer\<close>
  and draws it nowhere itself, and \<^verbatim>\<open>TopicInput\<close> does not get it. \<^verbatim>\<open>SimulationViewer\<close>
  shows it in one place, the right panel:
  \<^verbatim>\<open>loading.visual ? ... : error ? (<div> ... {error} ... </div>) : ...\<close>,
  which is below the three early returns.
\<close>

definition displayedError :: "AppState \<Rightarrow> string option" where
  "displayedError s =
    (if viewer_rendered s \<and> \<not> visual (loading s) then
       (case error s of
          None \<Rightarrow> None
        | Some message \<Rightarrow> if message = [] then None else Some message)
     else None)"

text \<open>\<^verbatim>\<open>{visualContent?.type === 'image' && !loading.visual && (<ImageEditor .../>)}\<close>\<close>

definition ImageEditor_rendered :: "AppState \<Rightarrow> bool" where
  "ImageEditor_rendered s =
    (viewer_rendered s
     \<and> (case visualContent s of None \<Rightarrow> False | Some vc \<Rightarrow> vtype vc = Image)
     \<and> \<not> visual (loading s))"

text \<open>
  \<^verbatim>\<open>ImageEditor\<close>'s \<^verbatim>\<open>handleEdit\<close>, the only caller of \<^verbatim>\<open>handleImageEdit\<close>; its
  \<^verbatim>\<open>loading\<close> property is \<^verbatim>\<open>loading.visual\<close>. A form that is not rendered cannot be
  submitted.
\<close>

definition ImageEditor_handleEdit :: "string \<Rightarrow> AppState \<Rightarrow> AppState \<times> request option" where
  "ImageEditor_handleEdit text_in s =
    (if ImageEditor_rendered s \<and> trim text_in \<noteq> [] \<and> \<not> visual (loading s)
     then handleImageEdit_begin (trim text_in) s
     else (s, None))"

text \<open>\<^verbatim>\<open>{currentStep.type === 'video' && (<VideoOptions .../>)}\<close>\<close>

definition VideoOptions_rendered :: "AppState \<Rightarrow> bool" where
  "VideoOptions_rendered s =
    (viewer_rendered s
     \<and> (case currentStep s of None \<Rightarrow> False | Some step \<Rightarrow> type step = Video))"

text \<open>\<^verbatim>\<open>VideoOptions\<close>' \<^verbatim>\<open>handleRegenerateClick\<close>, the only caller of \<^verbatim>\<open>handleVideoRegenerate\<close>.\<close>

definition VideoOptions_handleRegenerateClick ::
    "VideoStyle \<Rightarrow> AppState \<Rightarrow> AppState \<times> request option" where
  "VideoOptions_handleRegenerateClick selectedStyle s =
    (if VideoOptions_rendered s \<and> \<not> visual (loading s)
     then handleVideoRegenerate selectedStyle s
     else (s, None))"

section \<open>Handlers run to completion\<close>

text \<open>
  A handler whose awaited call settles before anything else happens: the synchronous
  part, the call of the content service, the rest of the handler.
\<close>

definition handleTopicSubmit ::
    "ai_service \<Rightarrow> (string \<Rightarrow> SimulationStep list option) \<Rightarrow> string \<Rightarrow> visual_type
      \<Rightarrow> AppState \<Rightarrow> AppState" where
  "handleTopicSubmit ai JSON_parse newTopic simulationType s =
    handleTopicSubmit_settle (generateSimulationPlan ai JSON_parse newTopic simulationType)
      (fst (handleTopicSubmit_begin newTopic simulationType s))"

definition handleImageEdit :: "ai_service \<Rightarrow> string \<Rightarrow> AppState \<Rightarrow> AppState" where
  "handleImageEdit ai editPrompt s =
    (case handleImageEdit_begin editPrompt s of
       (s1, Some (EditImage base64Data mime p)) \<Rightarrow>
         handleImageEdit_settle (editImage ai base64Data mime p) s1
     | (s1, _) \<Rightarrow> s1)"

text \<open>
  For a video step the first progress message is in the state after the synchronous
  part, and every later message is written to \<open>videoStatus\<close> before the handler
  resumes; \<open>None\<close> when \<^verbatim>\<open>generateVideo\<close> never returns.
\<close>

definition generateVisualForCurrentStep ::
    "ai_service \<Rightarrow> VideoStyle option \<Rightarrow> AppState \<Rightarrow> AppState option" where
  "generateVisualForCurrentStep ai styleOverride s =
    (case generateVisualForCurrentStep_begin styleOverride s of
       (s1, Some (GenerateImage p)) \<Rightarrow> Some (generateVisual_image_settle (generateImage ai p) s1)
     | (s1, Some (GenerateVideo p style)) \<Rightarrow>
         (case generateVideo ai p style of
            None \<Rightarrow> None
          | Some (progress, outcome) \<Rightarrow>
              Some (generateVisual_video_settle outcome
                     (foldl (\<lambda>st message. setVideoStatus message st) s1 (tl progress))))
     | (s1, _) \<Rightarrow> Some s1)"

section \<open>Platform functions of the share link\<close>

text \<open>
  The functions below are the browser's, not the repository's. They are modelled
  from their specifications (ECMAScript for \<^verbatim>\<open>JSON.stringify\<close>, \<^verbatim>\<open>encodeURIComponent\<close>
  and \<^verbatim>\<open>decodeURIComponent\<close>; the HTML and URL standards for \<^verbatim>\<open>btoa\<close>, \<^verbatim>\<open>atob\<close>, the
  URL parser and \<^verbatim>\<open>URLSearchParams\<close>), on strings in their UTF-8 representation.
  A function that throws returns \<open>None\<close>.
\<close>

definition hexUpper :: "nat \<Rightarrow> char" where
  "hexUpper n = ''0123456789ABCDEF'' ! n"

definition hexLower :: "nat \<Rightarrow> char" where
  "hexLower n = ''0123456789abcdef'' ! n"

text \<open>The value of a hexadecimal digit, of either case.\<close>

definition hexValue :: "char \<Rightarrow> nat option" where
  "hexValue c =
    (let n = of_char c in
     if 48 \<le> n \<and> n \<le> 57 then Some (n - 48)
     else if 65 \<le> n \<and> n \<le> 70 then Some (n - 55)
     else if 97 \<le> n \<and> n \<le> 102 then Some (n - 87)
     else None)"

subsection \<open>JSON.parse and the values it returns\<close>

text \<open>
  A number is an IEEE 754 double, given by its sign (\<open>True\<close> for a negative one) and
  its magnitude: \<open>m * 2 ^ e\<close>, or infinity (the value of the text \<^verbatim>\<open>1e999\<close>). No
  JSON text parses to \<^verbatim>\<open>NaN\<close>.
\<close>

datatype number = Finite bool nat int | Infinite bool

text \<open>
  The value that \<^verbatim>\<open>JSON.parse\<close> returns: \<^verbatim>\<open>null\<close>, a boolean, a number, a string, an
  array, or an object, given by its own properties in the order of their creation (the
  names are distinct). \<^verbatim>\<open>JSON.parse\<close> itself is a parameter of the model, a function
  from the text to the value, \<open>None\<close> where it throws.
\<close>

datatype json =
  JNull
| JBool bool
| JNumber number
| JString string
| JArray "json list"
| JObject "(string \<times> json) list"

text \<open>\<^verbatim>\<open>ToBoolean\<close>, the test that \<^verbatim>\<open>&&\<close> makes of its left operand.\<close>

fun truthy :: "json \<Rightarrow> bool" where
  "truthy JNull = False"
| "truthy (JBool b) = b"
| "truthy (JNumber (Finite negative m e)) = (m \<noteq> 0)"
| "truthy (JNumber (Infinite negative)) = True"
| "truthy (JString s) = (s \<noteq> [])"
| "truthy (JArray elements) = True"
| "truthy (JObject properties) = True"

text \<open>
  The cells \<^verbatim>\<open>topic\<close> and \<^verbatim>\<open>simulationPlan\<close> are declared to hold a string and an array
  of \<^verbatim>\<open>SimulationStep\<close>, and \<^typ>\<open>AppState\<close> gives them the types \<^typ>\<open>string\<close> and
  \<^typ>\<open>SimulationStep list\<close>, a step being the record of its four properties. So a
  parsed value has a value in \<^typ>\<open>AppState\<close> when it is a string, or an object with
  exactly the properties \<^verbatim>\<open>title\<close>, \<^verbatim>\<open>description\<close>, \<^verbatim>\<open>prompt\<close> and \<^verbatim>\<open>type\<close>,
  created in this order, the first three of them strings and the last \<^verbatim>\<open>'image'\<close> or
  \<^verbatim>\<open>'video'\<close>. Any other value has none: also an object with these properties in
  another order or with further ones, which \<^verbatim>\<open>JSON.stringify\<close> would write as they
  are. \<open>stepJSON\<close> gives the object for a record, \<open>asStep\<close> the record for an object.
\<close>

definition stepJSON :: "SimulationStep \<Rightarrow> json" where
  "stepJSON step =
    JObject [(''title'', JString (title step)), (''description'', JString (description step)),
             (''prompt'', JString (prompt step)),
             (''type'', JString (case type step of Image \<Rightarrow> ''image'' | Video \<Rightarrow> ''video''))]"

fun asString :: "json \<Rightarrow> string option" where
  "asString (JString s) = Some s"
| "asString other = None"

definition asStep :: "json \<Rightarrow> SimulationStep option" where
  "asStep v =
    (case v of
       JObject properties \<Rightarrow>
         if map fst properties = [''title'', ''description'', ''prompt'', ''type''] then
           (case map (\<lambda>entry. asString (snd entry)) properties of
              [Some a, Some b, Some c, Some d] \<Rightarrow>
                if d = ''image'' then
                  Some \<lparr>title = a, description = b, prompt = c, type = Image\<rparr>
                else if d = ''video'' then
                  Some \<lparr>title = a, description = b, prompt = c, type = Video\<rparr>
                else None
            | _ \<Rightarrow> None)
         else None
     | _ \<Rightarrow> None)"

text \<open>Every element is a step, or \<open>None\<close>.\<close>

definition asSteps :: "json list \<Rightarrow> SimulationStep list option" where
  "asSteps elements = those (map asStep elements)"

subsection \<open>JSON.stringify\<close>

text \<open>
  \<^verbatim>\<open>QuoteJSONString\<close>: the quotation mark, the reverse solidus and the code points below
  U+0020 are escaped; every other code point, ASCII or not, stands for itself.
\<close>

definition quoteJSONChar :: "char \<Rightarrow> string" where
  "quoteJSONChar c =
    (if c = CHR 0x08 then [CHR 0x5C, CHR ''b'']
     else if c = CHR 0x09 then [CHR 0x5C, CHR ''t'']
     else if c = CHR 0x0A then [CHR 0x5C, CHR ''n'']
     else if c = CHR 0x0C then [CHR 0x5C, CHR ''f'']
     else if c = CHR 0x0D then [CHR 0x5C, CHR ''r'']
     else if c = CHR 0x22 then [CHR 0x5C, CHR 0x22]
     else if c = CHR 0x5C then [CHR 0x5C, CHR 0x5C]
     else if (of_char c :: nat) < 0x20 then
       [CHR 0x5C, CHR ''u'', CHR ''0'', CHR ''0'',
        hexLower (of_char c div 16), hexLower (of_char c mod 16)]
     else [c])"

definition quoteJSONString :: "string \<Rightarrow> string" where
  "quoteJSONString s = [CHR 0x22] @ concat (map quoteJSONChar s) @ [CHR 0x22]"

text \<open>A property \<^verbatim>\<open>"key":value\<close> of a serialised object.\<close>

definition jsonProperty :: "string \<Rightarrow> string \<Rightarrow> string" where
  "jsonProperty k v = [CHR 0x22] @ k @ [CHR 0x22] @ '':'' @ v"

text \<open>\<^verbatim>\<open>array.join(',')\<close>\<close>

fun joinComma :: "string list \<Rightarrow> string" where
  "joinComma [] = []"
| "joinComma [x] = x"
| "joinComma (x # y # ys) = x @ '','' @ joinComma (y # ys)"

text \<open>
  \<^verbatim>\<open>JSON.stringify\<close> writes the own properties of an object in the order of their
  creation. For the object that a \<^typ>\<open>SimulationStep\<close> stands for, \<open>stepJSON\<close>, this is
  \<^verbatim>\<open>title\<close>, \<^verbatim>\<open>description\<close>, \<^verbatim>\<open>prompt\<close>, \<^verbatim>\<open>type\<close>.
\<close>

definition JSON_stringify_step :: "SimulationStep \<Rightarrow> string" where
  "JSON_stringify_step step =
    ''{'' @ jsonProperty ''title'' (quoteJSONString (title step))
    @ '','' @ jsonProperty ''description'' (quoteJSONString (description step))
    @ '','' @ jsonProperty ''prompt'' (quoteJSONString (prompt step))
    @ '','' @ jsonProperty ''type''
        (quoteJSONString (case type step of Image \<Rightarrow> ''image'' | Video \<Rightarrow> ''video''))
    @ ''}''"

text \<open>\<^verbatim>\<open>JSON.stringify({ topic, simulationPlan })\<close>\<close>

definition JSON_stringify_share :: "string \<Rightarrow> SimulationStep list \<Rightarrow> string" where
  "JSON_stringify_share topic_in steps =
    ''{'' @ jsonProperty ''topic'' (quoteJSONString topic_in)
    @ '','' @ jsonProperty ''simulationPlan''
        (''['' @ joinComma (map JSON_stringify_step steps) @ '']'')
    @ ''}''"

subsection \<open>encodeURIComponent\<close>

definition uriUnreserved :: "char \<Rightarrow> bool" where
  "uriUnreserved c =
    (c \<in> set ''ABCDEFGHIJKLMNOPQRSTUVWXYZabcdefghijklmnopqrstuvwxyz0123456789''
     \<or> c \<in> set [CHR ''-'', CHR ''_'', CHR ''.'', CHR ''!'', CHR ''~'', CHR ''*'', CHR 0x27,
                  CHR ''('', CHR '')''])"

text \<open>
  Every code point outside the unreserved set is replaced by the escapes of its UTF-8
  bytes, which are the bytes of the representation.
\<close>

definition encodeURIComponent :: "string \<Rightarrow> string" where
  "encodeURIComponent s =
    concat (map (\<lambda>c. if uriUnreserved c then [c]
                      else [CHR ''%'', hexUpper (of_char c div 16), hexUpper (of_char c mod 16)]) s)"

subsection \<open>btoa\<close>

text \<open>
  The code units of a string whose code points are all below U+0100; \<open>None\<close> (an
  \<^verbatim>\<open>InvalidCharacterError\<close>) for any other string.
\<close>

fun latin1_bytes :: "string \<Rightarrow> nat list option" where
  "latin1_bytes [] = Some []"
| "latin1_bytes [c] = (if (of_char c :: nat) < 0x80 then Some [of_char c] else None)"
| "latin1_bytes (c # d # cs) =
    (if (of_char c :: nat) < 0x80 then map_option ((#) (of_char c)) (latin1_bytes (d # cs))
     else if c = CHR 0xC2 then map_option ((#) (of_char d)) (latin1_bytes cs)
     else if c = CHR 0xC3 then map_option ((#) (of_char d + 0x40)) (latin1_bytes cs)
     else None)"

definition base64Alphabet :: string where
  "base64Alphabet = ''ABCDEFGHIJKLMNOPQRSTUVWXYZabcdefghijklmnopqrstuvwxyz0123456789+/''"

fun base64_encode :: "nat list \<Rightarrow> string" where
  "base64_encode [] = []"
| "base64_encode [a] =
    [base64Alphabet ! (a div 4), base64Alphabet ! ((a mod 4) * 16), CHR ''='', CHR ''='']"
| "base64_encode [a, b] =
    [base64Alphabet ! (a div 4), base64Alphabet ! ((a mod 4) * 16 + b div 16),
     base64Alphabet ! ((b mod 16) * 4), CHR ''='']"
| "base64_encode (a # b # c # rest) =
    [base64Alphabet ! (a div 4), base64Alphabet ! ((a mod 4) * 16 + b div 16),
     base64Alphabet ! ((b mod 16) * 4 + c div 64), base64Alphabet ! (c mod 64)]
    @ base64_encode rest"

definition btoa :: "string \<Rightarrow> string option" where
  "btoa s = map_option base64_encode (latin1_bytes s)"

subsection \<open>The URL parser and URLSearchParams\<close>

text \<open>
  \<^verbatim>\<open>window.location.search\<close> of a page opened at a URL: the text before the fragment
  (the first \<^verbatim>\<open>#\<close>) from its first \<^verbatim>\<open>?\<close> on, with the bytes of the special-query
  percent-encode set escaped; the empty string when there is no query or the query is
  empty. The URL parser drops tabs and newlines first.
\<close>

definition queryEscape :: "char \<Rightarrow> string" where
  "queryEscape c =
    (if (of_char c :: nat) \<le> 0x20 \<or> (of_char c :: nat) \<ge> 0x7F
        \<or> c = CHR 0x22 \<or> c = CHR ''<'' \<or> c = CHR ''>'' \<or> c = CHR 0x27
     then [CHR ''%'', hexUpper (of_char c div 16), hexUpper (of_char c mod 16)]
     else [c])"

definition location_search_of_url :: "string \<Rightarrow> string" where
  "location_search_of_url url =
    (case dropWhile (\<lambda>c. c \<noteq> CHR ''?'')
            (takeWhile (\<lambda>c. c \<noteq> CHR ''#'')
              (filter (\<lambda>c. c \<noteq> CHR 0x09 \<and> c \<noteq> CHR 0x0A \<and> c \<noteq> CHR 0x0D) url)) of
       [] \<Rightarrow> []
     | _ # [] \<Rightarrow> []
     | _ # q # qs \<Rightarrow> CHR ''?'' # concat (map queryEscape (q # qs)))"

text \<open>\<^verbatim>\<open>s.split(sep)\<close> for a separator of one character.\<close>

fun splitOn :: "char \<Rightarrow> string \<Rightarrow> string list" where
  "splitOn sep [] = [[]]"
| "splitOn sep (c # cs) =
    (if c = sep then [] # splitOn sep cs
     else (case splitOn sep cs of
             [] \<Rightarrow> [[c]]
           | piece # pieces \<Rightarrow> (c # piece) # pieces))"

text \<open>
  Percent-decoding of the URL standard: an escape that is not followed by two
  hexadecimal digits stays as it is.
\<close>

fun percent_decode :: "string \<Rightarrow> string" where
  "percent_decode (c # h # l # cs) =
    (if c = CHR ''%'' then
       (case (hexValue h, hexValue l) of
          (Some x, Some y) \<Rightarrow> char_of (x * 16 + y) # percent_decode cs
        | _ \<Rightarrow> c # percent_decode (h # l # cs))
     else c # percent_decode (h # l # cs))"
| "percent_decode cs = cs"

text \<open>
  \<^emph>\<open>UTF-8 decode without BOM\<close> of the Encoding standard, as a state machine over the
  bytes. The state is the number of bytes still needed, the bounds of the next byte and
  the bytes of the code point read so far. A malformed sequence gives U+FFFD.
\<close>

definition replacementCharacter :: string where
  "replacementCharacter = [CHR 0xEF, CHR 0xBF, CHR 0xBD]"

type_synonym utf8_state = "nat \<times> nat \<times> nat \<times> string"

definition utf8_initial :: utf8_state where
  "utf8_initial = (0, 0x80, 0xBF, [])"

text \<open>A byte read when no byte is needed: the new state and the output.\<close>

definition utf8_lead :: "char \<Rightarrow> utf8_state \<times> string" where
  "utf8_lead c =
    (let b = (of_char c :: nat) in
     if b \<le> 0x7F then (utf8_initial, [c])
     else if 0xC2 \<le> b \<and> b \<le> 0xDF then ((1, 0x80, 0xBF, [c]), [])
     else if 0xE0 \<le> b \<and> b \<le> 0xEF then
       ((2, if b = 0xE0 then 0xA0 else 0x80, if b = 0xED then 0x9F else 0xBF, [c]), [])
     else if 0xF0 \<le> b \<and> b \<le> 0xF4 then
       ((3, if b = 0xF0 then 0x90 else 0x80, if b = 0xF4 then 0x8F else 0xBF, [c]), [])
     else (utf8_initial, replacementCharacter))"

definition utf8_step :: "utf8_state \<Rightarrow> char \<Rightarrow> utf8_state \<times> string" where
  "utf8_step st c =
    (case st of (needed, lower, upper, seen) \<Rightarrow>
       if needed = 0 then utf8_lead c
       else if (of_char c :: nat) < lower \<or> upper < (of_char c :: nat) then
         (case utf8_lead c of (st', out) \<Rightarrow> (st', replacementCharacter @ out))
       else if needed = 1 then (utf8_initial, seen @ [c])
       else ((needed - 1, 0x80, 0xBF, seen @ [c]), []))"

fun utf8_decode_from :: "utf8_state \<Rightarrow> string \<Rightarrow> string" where
  "utf8_decode_from st [] = (if fst st = 0 then [] else replacementCharacter)"
| "utf8_decode_from st (c # cs) =
    (case utf8_step st c of (st', out) \<Rightarrow> out @ utf8_decode_from st' cs)"

definition utf8_decode :: "string \<Rightarrow> string" where
  "utf8_decode bytes = utf8_decode_from utf8_initial bytes"

text \<open>
  The \<^verbatim>\<open>application/x-www-form-urlencoded\<close> parser: the name and the value of every
  non-empty piece between \<^verbatim>\<open>&\<close>, split at the first \<^verbatim>\<open>=\<close>, every \<^verbatim>\<open>+\<close> replaced
  by a space, percent-decoded and UTF-8 decoded.
\<close>

definition plusToSpace :: "string \<Rightarrow> string" where
  "plusToSpace s = map (\<lambda>c. if c = CHR ''+'' then CHR '' '' else c) s"

definition urlencoded_parse :: "string \<Rightarrow> (string \<times> string) list" where
  "urlencoded_parse input =
    map (\<lambda>piece.
          (utf8_decode (percent_decode (plusToSpace (takeWhile (\<lambda>c. c \<noteq> CHR ''='') piece))),
           utf8_decode (percent_decode (plusToSpace
             (drop 1 (dropWhile (\<lambda>c. c \<noteq> CHR ''='') piece))))))
      (filter (\<lambda>piece. piece \<noteq> []) (splitOn CHR ''&'' input))"

text \<open>
  \<^verbatim>\<open>new URLSearchParams(search).get(name)\<close>: a leading \<^verbatim>\<open>?\<close> is dropped; the value of
  the first pair with the name, \<open>None\<close> for \<^verbatim>\<open>null\<close>.
\<close>

definition URLSearchParams_get :: "string \<Rightarrow> string \<Rightarrow> string option" where
  "URLSearchParams_get search name =
    map_of (urlencoded_parse (case search of
                                [] \<Rightarrow> []
                              | c # cs \<Rightarrow> if c = CHR ''?'' then cs else c # cs)) name"

subsection \<open>atob\<close>

definition asciiWhitespace :: "char \<Rightarrow> bool" where
  "asciiWhitespace c =
    (c = CHR 0x09 \<or> c = CHR 0x0A \<or> c = CHR 0x0C \<or> c = CHR 0x0D \<or> c = CHR 0x20)"

text \<open>The value of a character of the base64 alphabet.\<close>

definition base64Value :: "char \<Rightarrow> nat option" where
  "base64Value c =
    (let n = of_char c in
     if 65 \<le> n \<and> n \<le> 90 then Some (n - 65)
     else if 97 \<le> n \<and> n \<le> 122 then Some (n - 71)
     else if 48 \<le> n \<and> n \<le> 57 then Some (n + 4)
     else if c = CHR ''+'' then Some 62
     else if c = CHR ''/'' then Some 63
     else None)"

text \<open>
  Groups of four values give three bytes; two left over give one byte, three give
  two, the spare bits discarded.
\<close>

fun base64_decode :: "nat list \<Rightarrow> nat list" where
  "base64_decode (a # b # c # d # rest) =
    [a * 4 + b div 16, (b mod 16) * 16 + c div 4, (c mod 4) * 64 + d] @ base64_decode rest"
| "base64_decode [a, b, c] = [a * 4 + b div 16, (b mod 16) * 16 + c div 4]"
| "base64_decode [a, b] = [a * 4 + b div 16]"
| "base64_decode vs = []"

text \<open>\<open>None\<close> when one of the characters is outside the alphabet.\<close>

fun base64Values :: "string \<Rightarrow> nat list option" where
  "base64Values [] = Some []"
| "base64Values (c # cs) =
    (case base64Value c of
       None \<Rightarrow> None
     | Some v \<Rightarrow> map_option ((#) v) (base64Values cs))"

text \<open>A string of code units below 0x100, in its UTF-8 representation.\<close>

definition binaryString :: "nat list \<Rightarrow> string" where
  "binaryString bytes =
    concat (map (\<lambda>b. if b < 0x80 then [char_of b]
                      else [char_of (0xC0 + b div 0x40), char_of (0x80 + b mod 0x40)]) bytes)"

text \<open>
  \<^emph>\<open>Forgiving-base64 decode\<close>: ASCII white space is removed; one or two \<^verbatim>\<open>=\<close> are
  dropped from the end of a text whose length is a multiple of four; a length of
  1 modulo 4 and a character outside the alphabet are errors.
\<close>

definition stripPadding :: "string \<Rightarrow> string" where
  "stripPadding s =
    (if length s mod 4 = 0 then
       (case rev s of
          e1 # e2 # r \<Rightarrow>
            if e1 = CHR ''='' \<and> e2 = CHR ''='' then rev r
            else if e1 = CHR ''='' then rev (e2 # r)
            else s
        | _ \<Rightarrow> s)
     else s)"

definition atob :: "string \<Rightarrow> string option" where
  "atob input =
    (let s = stripPadding (filter (\<lambda>c. \<not> asciiWhitespace c) input) in
     if length s mod 4 = 1 then None
     else map_option (\<lambda>vs. binaryString (base64_decode vs)) (base64Values s))"

subsection \<open>decodeURIComponent\<close>

text \<open>
  First every escape \<^verbatim>\<open>%XX\<close> is read: \<open>Inl\<close> is an escaped byte, \<open>Inr\<close> a character that
  stands for itself. A \<^verbatim>\<open>%\<close> that is not followed by two hexadecimal digits is a
  \<^verbatim>\<open>URIError\<close>.
\<close>

fun readEscapes :: "string \<Rightarrow> (nat + char) list option" where
  "readEscapes [] = Some []"
| "readEscapes (c # cs) =
    (if c = CHR ''%'' then
       (case cs of
          h # l # rest \<Rightarrow>
            (case (hexValue h, hexValue l) of
               (Some x, Some y) \<Rightarrow> map_option ((#) (Inl (x * 16 + y))) (readEscapes rest)
             | _ \<Rightarrow> None)
        | _ \<Rightarrow> None)
     else map_option ((#) (Inr c)) (readEscapes cs))"

text \<open>
  Then the escaped bytes are assembled: a byte below 0x80 is its character; a byte
  that announces \<open>n\<close> bytes must be followed by \<open>n - 1\<close> escaped bytes that complete
  the UTF-8 encoding of one code point (no overlong form, no surrogate, nothing above
  U+10FFFF); anything else is a \<^verbatim>\<open>URIError\<close>.
\<close>

definition continuation :: "nat \<Rightarrow> bool" where
  "continuation b = (0x80 \<le> b \<and> b \<le> 0xBF)"

fun assembleEscapes :: "(nat + char) list \<Rightarrow> string option" where
  "assembleEscapes [] = Some []"
| "assembleEscapes (Inr c # rest) = map_option ((#) c) (assembleEscapes rest)"
| "assembleEscapes (Inl b # rest) =
    (if b < 0x80 then map_option ((#) (char_of b)) (assembleEscapes rest)
     else if 0xC2 \<le> b \<and> b \<le> 0xDF then
       (case rest of
          Inl b2 # rest2 \<Rightarrow>
            if continuation b2
            then map_option ((@) [char_of b, char_of b2]) (assembleEscapes rest2)
            else None
        | _ \<Rightarrow> None)
     else if 0xE0 \<le> b \<and> b \<le> 0xEF then
       (case rest of
          Inl b2 # Inl b3 # rest3 \<Rightarrow>
            if (if b = 0xE0 then 0xA0 else 0x80) \<le> b2
               \<and> b2 \<le> (if b = 0xED then 0x9F else 0xBF) \<and> continuation b3
            then map_option ((@) [char_of b, char_of b2, char_of b3]) (assembleEscapes rest3)
            else None
        | _ \<Rightarrow> None)
     else if 0xF0 \<le> b \<and> b \<le> 0xF4 then
       (case rest of
          Inl b2 # Inl b3 # Inl b4 # rest4 \<Rightarrow>
            if (if b = 0xF0 then 0x90 else 0x80) \<le> b2
               \<and> b2 \<le> (if b = 0xF4 then 0x8F else 0xBF)
               \<and> continuation b3 \<and> continuation b4
            then map_option ((@) [char_of b, char_of b2, char_of b3, char_of b4])
                   (assembleEscapes rest4)
            else None
        | _ \<Rightarrow> None)
     else None)"

definition decodeURIComponent :: "string \<Rightarrow> string option" where
  "decodeURIComponent s =
    (case readEscapes s of None \<Rightarrow> None | Some items \<Rightarrow> assembleEscapes items)"

section \<open>Share link (SimulationViewer.tsx, App.tsx)\<close>

text \<open>
  The URL \<^verbatim>\<open>handleShare\<close> hands to \<^verbatim>\<open>navigator.share\<close> or to the clipboard, for the
  page's \<^verbatim>\<open>window.location.origin\<close> and \<^verbatim>\<open>window.location.pathname\<close>.
\<close>

definition handleShare :: "string \<Rightarrow> string \<Rightarrow> AppState \<Rightarrow> string option" where
  "handleShare origin pathname s =
    (case btoa (encodeURIComponent (JSON_stringify_share (topic s) (simulationPlan s))) of
       None \<Rightarrow> None
     | Some base64String \<Rightarrow> Some (origin @ pathname @ ''?simulation='' @ base64String))"

text \<open>\<^verbatim>\<open>{simulationPlan.length > 0 && (<button onClick={handleShare} ...>)}\<close>\<close>

definition ShareButton_rendered :: "AppState \<Rightarrow> bool" where
  "ShareButton_rendered s = (viewer_rendered s \<and> length (simulationPlan s) > 0)"

subsection \<open>loadSimulationFromURL\<close>

text \<open>
  The body of the \<^verbatim>\<open>try\<close> block: the values it hands to \<^verbatim>\<open>setTopic\<close> and to
  \<^verbatim>\<open>setSimulationPlan\<close>, which are \<^verbatim>\<open>data.topic\<close> and \<^verbatim>\<open>data.simulationPlan\<close> (an
  array, given by its elements), or \<open>None\<close> when it calls neither. A throw of \<^verbatim>\<open>atob\<close>,
  \<^verbatim>\<open>decodeURIComponent\<close> or \<^verbatim>\<open>JSON.parse\<close>, and the \<^verbatim>\<open>TypeError\<close> of \<^verbatim>\<open>data.topic\<close>
  on \<^verbatim>\<open>null\<close>, are caught and only logged. On a boolean, a number, a string and an
  array \<^verbatim>\<open>data.topic\<close> is \<^verbatim>\<open>undefined\<close>, as it is on an object that has no such
  property. The test reads the truthiness of \<^verbatim>\<open>data.topic\<close>, whether
  \<^verbatim>\<open>data.simulationPlan\<close> is an array, and its length, and nothing else: neither the
  type of the topic nor the elements of the array.
\<close>

definition loadShared :: "(string \<Rightarrow> json option) \<Rightarrow> string \<Rightarrow> (json \<times> json list) option" where
  "loadShared JSON_parse sharedData =
    (case atob sharedData of
       None \<Rightarrow> None
     | Some binary \<Rightarrow>
         (case decodeURIComponent binary of
            None \<Rightarrow> None
          | Some jsonString \<Rightarrow>
              (case JSON_parse jsonString of
                 None \<Rightarrow> None
               | Some (JObject properties) \<Rightarrow>
                   (case (map_of properties ''topic'', map_of properties ''simulationPlan'') of
                      (Some t, Some (JArray p)) \<Rightarrow>
                        if truthy t \<and> length p > 0 then Some (t, p) else None
                    | _ \<Rightarrow> None)
               | Some other \<Rightarrow> None)))"

text \<open>
  The component after \<^verbatim>\<open>loadSimulationFromURL\<close>. \<open>Typed s\<close>: the state is \<open>s\<close>.
  \<open>Untyped t p s\<close>: \<^verbatim>\<open>setTopic\<close> and \<^verbatim>\<open>setSimulationPlan\<close> were called with \<open>t\<close> and
  with the array of the elements \<open>p\<close>, and \<open>t\<close> is not a string or an element of \<open>p\<close>
  is not a step: the cells \<^verbatim>\<open>topic\<close> and \<^verbatim>\<open>simulationPlan\<close> hold \<open>t\<close> and the array,
  which have no value in \<^typ>\<open>AppState\<close>, and \<open>s\<close> gives the other cells.
\<close>

datatype loaded = Typed AppState | Untyped json "json list" AppState

text \<open>
  \<^verbatim>\<open>if (sharedData)\<close> skips the whole block, with the \<^verbatim>\<open>finally\<close> that cleans the
  URL, for \<^verbatim>\<open>null\<close> and for the empty string.
\<close>

definition loadSimulationFromURL :: "(string \<Rightarrow> json option) \<Rightarrow> AppState \<Rightarrow> loaded" where
  "loadSimulationFromURL JSON_parse s =
    (case URLSearchParams_get (location_search s) ''simulation'' of
       None \<Rightarrow> Typed s
     | Some sharedData \<Rightarrow>
         if sharedData = [] then Typed s
         else (case loadShared JSON_parse sharedData of
                 None \<Rightarrow> Typed (s\<lparr>location_search := []\<rparr>)
               | Some (t, p) \<Rightarrow>
                   (case (asString t, asSteps p) of
                      (Some sharedTopic, Some steps) \<Rightarrow>
                        Typed (s\<lparr>topic := sharedTopic, simulationPlan := steps,
                                 location_search := []\<rparr>)
                    | _ \<Rightarrow> Untyped t p (s\<lparr>location_search := []\<rparr>))))"

text \<open>
  Mounting the component on a page with the given \<^verbatim>\<open>window.location.search\<close>: the
  first effect loads the shared simulation, the second finds the plan of the first
  render empty; after the next render the second effect runs again if the length of
  the plan has changed. The result is the state and the request that is then pending.
  The model follows the component from a state that \<^typ>\<open>AppState\<close> can give:
  \<open>None\<close> stands for the component mounted on a link that has put other values
  into \<^verbatim>\<open>topic\<close> and \<^verbatim>\<open>simulationPlan\<close>.
\<close>

definition mount ::
    "(string \<Rightarrow> json option) \<Rightarrow> string \<Rightarrow> (AppState \<times> request option) option" where
  "mount JSON_parse search =
    (case loadSimulationFromURL JSON_parse (initialState search) of
       Typed s \<Rightarrow> Some (visual_effect (initialState search) s)
     | Untyped t p s \<Rightarrow> None)"

section \<open>The component as a transition system\<close>

text \<open>
  What can happen to a mounted component: a control is used, or a call of the content
  service settles. \<open>fire\<close> gives the state after the event's handler and after the
  effect of the render that follows. A run starts with the component mounted on any
  URL, except a link that puts other values than a string and steps into \<^verbatim>\<open>topic\<close>
  and \<^verbatim>\<open>simulationPlan\<close>.

  \<^verbatim>\<open>loading.plan\<close> is set exactly while a plan request is in flight
  (\<^verbatim>\<open>handleTopicSubmit\<close> sets and clears it, the other handlers keep it, and
  \<^verbatim>\<open>TopicInput\<close> submits nothing while it is set), so a plan request settles only in
  such a state. The calls for a visual are not tracked: their settlements and the
  progress messages may come at any time and with any outcome, which allows every run
  of the component and more.
\<close>

datatype event =
  SubmitTopic string visual_type
| PlanSettled "exn + SimulationStep list"
| GoToStep int
| SubmitEdit string
| RegenerateClick VideoStyle
| ImageSettled "exn + string \<times> string"
| VideoProgress string
| VideoSettled "exn + string"
| EditSettled "exn + string \<times> string"

fun fire :: "event \<Rightarrow> AppState \<Rightarrow> AppState" where
  "fire (SubmitTopic text_in simulationType) s =
    fst (visual_effect s (fst (TopicInput_handleSubmit text_in simulationType s)))"
| "fire (PlanSettled outcome) s =
    (if plan (loading s) then fst (visual_effect s (handleTopicSubmit_settle outcome s)) else s)"
| "fire (GoToStep index) s = fst (visual_effect s (goToStep index s))"
| "fire (SubmitEdit text_in) s = fst (ImageEditor_handleEdit text_in s)"
| "fire (RegenerateClick style) s = fst (VideoOptions_handleRegenerateClick style s)"
| "fire (ImageSettled outcome) s = generateVisual_image_settle outcome s"
| "fire (VideoProgress message) s = setVideoStatus message s"
| "fire (VideoSettled outcome) s = generateVisual_video_settle outcome s"
| "fire (EditSettled outcome) s = handleImageEdit_settle outcome s"

inductive reachable :: "AppState \<Rightarrow> bool" where
  mounted: "mount JSON_parse search = Some (s, r) \<Longrightarrow> reachable s"
| fired: "reachable s \<Longrightarrow> reachable (fire e s)"

text \<open>
  The invariant of the data model: the current index is an index of the plan, or the
  plan is empty and the index is 0.
\<close>

definition index_in_plan :: "AppState \<Rightarrow> bool" where
  "index_in_plan s =
    (if simulationPlan s = [] then currentStepIndex s = 0
     else 0 \<le> currentStepIndex s \<and> currentStepIndex s < int (length (simulationPlan s)))"

text \<open>
  The invariant as the induction over the runs needs it: while the plan is loading the
  plan is empty and the index is 0.
\<close>

definition well_indexed :: "AppState \<Rightarrow> bool" where
  "well_indexed s =
    (index_in_plan s
     \<and> (if plan (loading s) then simulationPlan s = [] \<and> currentStepIndex s = 0 else True))"

text \<open>Two states with the same plan, index and plan-loading flag.\<close>

definition same_position :: "AppState \<Rightarrow> AppState \<Rightarrow> bool" where
  "same_position s' s =
    (simulationPlan s' = simulationPlan s \<and> currentStepIndex s' = currentStepIndex s
     \<and> plan (loading s') = plan (loading s))"

section \<open>Statements about the video job\<close>



section \<open>Sample values\<close>

definition imageStep :: "string \<Rightarrow> SimulationStep" where
  "imageStep name =
    \<lparr>title = name, description = ''What happens in this step.'',
     prompt = ''A labeled diagram.'', type = Image\<rparr>"

definition videoStep :: "string \<Rightarrow> SimulationStep" where
  "videoStep name =
    \<lparr>title = name, description = ''What happens in this step.'',
     prompt = ''An animation.'', type = Video\<rparr>"

definition photosynthesisPlan :: "SimulationStep list" where
  "photosynthesisPlan =
    [imageStep ''Sunlight Absorption'', imageStep ''Water Splitting'',
     imageStep ''Carbon Fixation'', imageStep ''Sugar Production'']"

text \<open>A state that shows an image for the third of four steps, after a failed edit.\<close>

definition imageShown :: AppState where
  "imageShown =
    \<lparr>topic = ''Photosynthesis'', simulationPlan = photosynthesisPlan, currentStepIndex = 2,
     visualContent = Some \<lparr>vtype = Image, data = ''data:image/png;base64,iVBORw0KGgo='',
                            mimeType = Some ''image/png''\<rparr>,
     loading = \<lparr>plan = False, visual = False\<rparr>, videoStatus = [],
     error = Some ''Failed to edit image.'', location_search = []\<rparr>"

text \<open>
  A service whose video job reports not-done three times (the operation it starts
  with and the first two polls) and then done, with a link.
\<close>

definition threePolls :: ai_service where
  "threePolls =
    \<lparr>plan_reply = (\<lambda>t ty. Inr ''[]''),
     image_reply = (\<lambda>p. Inr [None, Some (''iVBORw0KGgo='', ''image/png'')]),
     edit_reply = (\<lambda>b m p. Inr [Some (''R0lGODlh'', ''image/gif'')]),
     generateVideos = (\<lambda>p style. Inr \<lparr>op_done = False, video_uri = None\<rparr>),
     getVideosOperation =
       (\<lambda>k. if k < 2 then Inr \<lparr>op_done = False, video_uri = None\<rparr>
            else Inr \<lparr>op_done = True, video_uri = Some ''https://video.example/v1?alt=media''\<rparr>),
     fetch = (\<lambda>url. Inr \<lparr>ok = True, statusText = ''OK'', blob = Inr ''blob:https://app.example/1''\<rparr>),
     API_KEY = ''k''\<rparr>"

text \<open>
  A \<^verbatim>\<open>JSON.parse\<close> given on two texts only: the empty array, and a text that is not
  JSON.
\<close>

definition parseEmptyArray :: "string \<Rightarrow> SimulationStep list option" where
  "parseEmptyArray json = (if json = ''[]'' then Some [] else None)"

text \<open>The state in which an edit of that image is pending.\<close>

definition editPending :: AppState where
  "editPending = fst (handleImageEdit_begin ''add labels'' imageShown)"

text \<open>A state that shows the video of the first of two video steps.\<close>

definition videoShown :: AppState where
  "videoShown =
    \<lparr>topic = ''Mitosis'', simulationPlan = [videoStep ''Prophase'', videoStep ''Metaphase''],
     currentStepIndex = 0,
     visualContent = Some \<lparr>vtype = Video, data = ''blob:https://app.example/1'', mimeType = None\<rparr>,
     loading = \<lparr>plan = False, visual = False\<rparr>, videoStatus = [],
     error = None, location_search = []\<rparr>"



text \<open>A service whose reply to the plan request is not JSON.\<close>

definition proseReply :: ai_service where
  "proseReply = threePolls\<lparr>plan_reply := (\<lambda>t ty. Inr ''Here is your lesson plan.'')\<rparr>"

text \<open>
  The JSON text of the four-step plan, a service that replies with it between white
  space, and a \<^verbatim>\<open>JSON.parse\<close> given on that text only.
\<close>

definition photosynthesisJSON :: string where
  "photosynthesisJSON = ''['' @ joinComma (map JSON_stringify_step photosynthesisPlan) @ '']''"

definition photosynthesisReply :: ai_service where
  "photosynthesisReply =
    threePolls\<lparr>plan_reply := (\<lambda>t ty. Inr ([CHR 0x0A] @ photosynthesisJSON @ [CHR 0x0A]))\<rparr>"

definition parsePhotosynthesis :: "string \<Rightarrow> SimulationStep list option" where
  "parsePhotosynthesis json = (if json = photosynthesisJSON then Some photosynthesisPlan else None)"

text \<open>A \<^verbatim>\<open>JSON.parse\<close> that throws on every text.\<close>

definition noSharedJSON :: "string \<Rightarrow> json option" where
  "noSharedJSON json = None"

text \<open>
  The component after a run: mounted without a query, which leaves it in its initial
  state, the topic submitted, the plan settled with four steps, the third step
  selected.
\<close>

definition thirdStepSelected :: AppState where
  "thirdStepSelected =
    fire (GoToStep 2)
      (fire (PlanSettled (Inr photosynthesisPlan))
        (fire (SubmitTopic '' Photosynthesis '' Image) (initialState [])))"

text \<open>
  The component after a run that ends with the image of the only step of a plan on a
  topic with a tilde.
\<close>

definition atpShared :: AppState where
  "atpShared =
    fire (ImageSettled (Inr (''iVBORw0KGgo='', ''image/png'')))
      (fire (PlanSettled (Inr [imageStep ''ATP hydrolysis'']))
        (fire (SubmitTopic ''ATP ~30 kJ'' Image) (initialState [])))"

text \<open>The parameter of the link that \<^verbatim>\<open>handleShare\<close> makes in that state, and the link.\<close>

definition atpParam :: string where
  "atpParam = ''JTdCJTIydG9waWMlMjIlM0ElMjJBVFAlMjB+MzAlMjBrSiUyMiUyQyUyMnNpbXVsYXRpb25QbGFuJTIyJTNBJTVCJTdCJTIydGl0bGUlMjIlM0ElMjJBVFAlMjBoeWRyb2x5c2lzJTIyJTJDJTIyZGVzY3JpcHRpb24lMjIlM0ElMjJXaGF0JTIwaGFwcGVucyUyMGluJTIwdGhpcyUyMHN0ZXAuJTIyJTJDJTIycHJvbXB0JTIyJTNBJTIyQSUyMGxhYmVsZWQlMjBkaWFncmFtLiUyMiUyQyUyMnR5cGUlMjIlM0ElMjJpbWFnZSUyMiU3RCU1RCU3RA==''"

definition atpLink :: string where
  "atpLink = ''https://biosim.example/?simulation='' @ atpParam"

text \<open>
  The same run on a topic without a tilde, the parameter and the link of that state,
  and a \<^verbatim>\<open>JSON.parse\<close> given on the text of that link only.
\<close>

definition mitosisShared :: AppState where
  "mitosisShared =
    fire (ImageSettled (Inr (''iVBORw0KGgo='', ''image/png'')))
      (fire (PlanSettled (Inr [imageStep ''Prophase'']))
        (fire (SubmitTopic ''Mitosis'' Image) (initialState [])))"

definition mitosisParam :: string where
  "mitosisParam = ''JTdCJTIydG9waWMlMjIlM0ElMjJNaXRvc2lzJTIyJTJDJTIyc2ltdWxhdGlvblBsYW4lMjIlM0ElNUIlN0IlMjJ0aXRsZSUyMiUzQSUyMlByb3BoYXNlJTIyJTJDJTIyZGVzY3JpcHRpb24lMjIlM0ElMjJXaGF0JTIwaGFwcGVucyUyMGluJTIwdGhpcyUyMHN0ZXAuJTIyJTJDJTIycHJvbXB0JTIyJTNBJTIyQSUyMGxhYmVsZWQlMjBkaWFncmFtLiUyMiUyQyUyMnR5cGUlMjIlM0ElMjJpbWFnZSUyMiU3RCU1RCU3RA==''"

definition mitosisLink :: string where
  "mitosisLink = ''https://biosim.example/?simulation='' @ mitosisParam"

definition parseMitosis :: "string \<Rightarrow> json option" where
  "parseMitosis json =
    (if json = JSON_stringify_share ''Mitosis'' [imageStep ''Prophase'']
     then Some (JObject [(''topic'', JString ''Mitosis''),
                         (''simulationPlan'', JArray [stepJSON (imageStep ''Prophase'')])])
     else None)"

text \<open>
  A link that nobody has shared: its parameter is the encoding of the JSON text
  \<^verbatim>\<open>{"topic":7,"simulationPlan":[1]}\<close>, in which the topic is a number and the plan
  holds no step. With it the text, and a \<^verbatim>\<open>JSON.parse\<close> given on that text only.
\<close>

definition uncheckedJSON :: string where
  "uncheckedJSON =
    ''{'' @ jsonProperty ''topic'' ''7'' @ '','' @ jsonProperty ''simulationPlan'' ''[1]'' @ ''}''"

definition uncheckedParam :: string where
  "uncheckedParam = ''JTdCJTIydG9waWMlMjIlM0E3JTJDJTIyc2ltdWxhdGlvblBsYW4lMjIlM0ElNUIxJTVEJTdE''"

definition parseUnchecked :: "string \<Rightarrow> json option" where
  "parseUnchecked json =
    (if json = uncheckedJSON
     then Some (JObject [(''topic'', JNumber (Finite False 7 0)),
                         (''simulationPlan'', JArray [JNumber (Finite False 1 0)])])
     else None)"


section \<open>Trimming uses enough rounds\<close>

lemma startsWith_length: "startsWith s w \<Longrightarrow> length w \<le> length s"
  by (induction s w rule: startsWith.induct) auto

lemma startsWith_take: "startsWith (take m s) w \<Longrightarrow> startsWith s w"
proof (induction s w arbitrary: m rule: startsWith.induct)
  case (1 s)
  then show ?case by simp
next
  case (2 p ps)
  then show ?case by simp
next
  case (3 c cs p ps)
  then show ?case by (cases m) auto
qed

lemma leadingWhiteSpace_empty: "leadingWhiteSpace [] = 0"
  by (simp add: leadingWhiteSpace_def whiteSpace_def)

lemma trailingWhiteSpace_empty: "trailingWhiteSpace [] = 0"
  by (simp add: trailingWhiteSpace_def whiteSpace_def)

lemma leadingWhiteSpace_zero:
  "leadingWhiteSpace s = 0 \<longleftrightarrow> filter (startsWith s) whiteSpace = []"
proof -
  have "\<forall>w \<in> set whiteSpace. w \<noteq> []"
    by (simp add: whiteSpace_def)
  then have "w \<in> set (filter (startsWith s) whiteSpace) \<Longrightarrow> w \<noteq> []" for w
    by simp
  then show ?thesis
    by (cases "filter (startsWith s) whiteSpace") (auto simp add: leadingWhiteSpace_def)
qed

lemma leadingWhiteSpace_take: "leadingWhiteSpace s = 0 \<Longrightarrow> leadingWhiteSpace (take m s) = 0"
  unfolding leadingWhiteSpace_zero
  by (auto simp add: filter_empty_conv dest: startsWith_take)

lemma trimStart_fuel_done: "length s \<le> n \<Longrightarrow> leadingWhiteSpace (trimStart_fuel n s) = 0"
proof (induction n arbitrary: s)
  case 0
  then show ?case by (simp add: leadingWhiteSpace_empty)
next
  case (Suc n)
  show ?case
  proof (cases "leadingWhiteSpace s = 0")
    case True
    then show ?thesis by simp
  next
    case False
    then have "s \<noteq> []"
      using leadingWhiteSpace_empty by auto
    with False Suc.prems have "length (drop (leadingWhiteSpace s) s) \<le> n"
      by (cases s) auto
    with False Suc.IH show ?thesis by simp
  qed
qed

lemma trimEnd_fuel_done: "length s \<le> n \<Longrightarrow> trailingWhiteSpace (trimEnd_fuel n s) = 0"
proof (induction n arbitrary: s)
  case 0
  then show ?case by (simp add: trailingWhiteSpace_empty)
next
  case (Suc n)
  show ?case
  proof (cases "trailingWhiteSpace s = 0")
    case True
    then show ?thesis by simp
  next
    case False
    then have "s \<noteq> []"
      using trailingWhiteSpace_empty by auto
    with False Suc.prems have "length (take (length s - trailingWhiteSpace s) s) \<le> n"
      by (cases s) auto
    with False Suc.IH show ?thesis by simp
  qed
qed

lemma trimEnd_fuel_leading:
  "leadingWhiteSpace s = 0 \<Longrightarrow> leadingWhiteSpace (trimEnd_fuel n s) = 0"
  by (induction n arbitrary: s) (auto simp add: leadingWhiteSpace_take)

text \<open>
  The rounds that \<open>trim\<close> makes are enough: the result neither starts nor ends with
  white space.
\<close>

lemma trim_done: "leadingWhiteSpace (trim s) = 0 \<and> trailingWhiteSpace (trim s) = 0"
  by (simp add: trim_def trimStart_def trimEnd_def trimStart_fuel_done trimEnd_fuel_done
      trimEnd_fuel_leading)

lemma trim_sample: "trim [CHR 0x0A, CHR '' '', CHR ''[''  , CHR '']'', CHR 0xC2, CHR 0xA0, CHR 0x09] = ''[]''"
  by code_simp

section \<open>Step navigation\<close>

text \<open>
  Claim C4. For every plan and every index \<open>i\<close>: if \<open>0 \<le> i < plan.length\<close> then
  \<^verbatim>\<open>goToStep(i)\<close> sets the current index to \<open>i\<close>, so that the current step read
  afterwards is \<open>plan[i]\<close>; for every other index \<^verbatim>\<open>goToStep\<close> leaves the whole state
  as it is.
\<close>

theorem goToStep_in_range_or_ignored:
  "(0 \<le> i \<and> i < int (length (simulationPlan s)) \<longrightarrow>
      currentStepIndex (goToStep i s) = i
      \<and> currentStep (goToStep i s) = Some (simulationPlan s ! nat i))
   \<and> (\<not> (0 \<le> i \<and> i < int (length (simulationPlan s))) \<longrightarrow> goToStep i s = s)"
  by (simp add: goToStep_def currentStep_def at_index_def)

theorem goToStep_in_range_or_ignored_witness:
  "(0::int) \<le> 3 \<and> 3 < int (length (simulationPlan imageShown))
   \<and> currentStepIndex (goToStep 3 imageShown) = 3
   \<and> currentStep (goToStep 3 imageShown) = Some (imageStep ''Sugar Production'')
   \<and> \<not> (4 < int (length (simulationPlan imageShown)))
   \<and> goToStep 4 imageShown = imageShown
   \<and> goToStep (- 1) imageShown = imageShown"
  using goToStep_in_range_or_ignored [of 3 imageShown]
    goToStep_in_range_or_ignored [of 4 imageShown]
    goToStep_in_range_or_ignored [of "- 1" imageShown]
  by (simp add: imageShown_def photosynthesisPlan_def)

section \<open>Entering the pending state\<close>

lemma generateVisual_begin_clears:
  "snd (generateVisualForCurrentStep_begin styleOverride s) \<noteq> None \<Longrightarrow>
    visual (loading (fst (generateVisualForCurrentStep_begin styleOverride s)))
    \<and> visualContent (fst (generateVisualForCurrentStep_begin styleOverride s)) = None
    \<and> error (fst (generateVisualForCurrentStep_begin styleOverride s)) = None"
  by (simp add: generateVisualForCurrentStep_begin_def setVideoStatus_def Let_def
      split: if_splits option.splits visual_type.splits)

lemma generateVisual_begin_idle:
  "snd (generateVisualForCurrentStep_begin styleOverride s) = None \<Longrightarrow>
    fst (generateVisualForCurrentStep_begin styleOverride s) = s"
  by (simp add: generateVisualForCurrentStep_begin_def Let_def
      split: if_splits option.splits visual_type.splits)

text \<open>
  The video status of the pending state: empty for an image step, the first progress
  message for a video step. No message of an earlier request is left.
\<close>

lemma generateVisual_begin_videoStatus:
  "snd (generateVisualForCurrentStep_begin styleOverride s) = Some r \<Longrightarrow>
    videoStatus (fst (generateVisualForCurrentStep_begin styleOverride s))
      = (case r of GenerateVideo p style \<Rightarrow> ''Initializing the virtual microscope...'' | _ \<Rightarrow> [])"
  by (auto simp add: generateVisualForCurrentStep_begin_def setVideoStatus_def Let_def
      videoGenerationMessages_def split: if_splits option.splits visual_type.splits)

lemma visual_effect_clears:
  "snd (visual_effect before s) \<noteq> None \<Longrightarrow>
    visual (loading (fst (visual_effect before s)))
    \<and> visualContent (fst (visual_effect before s)) = None
    \<and> error (fst (visual_effect before s)) = None"
  using generateVisual_begin_clears [of None s]
  by (auto simp add: visual_effect_def split: if_splits)

lemma visual_effect_idle:
  "snd (visual_effect before s) = None \<Longrightarrow> fst (visual_effect before s) = s"
  using generateVisual_begin_idle [of None s]
  by (auto simp add: visual_effect_def split: if_splits)

lemma handleImageEdit_begin_keeps:
  "snd (handleImageEdit_begin editPrompt s) \<noteq> None \<Longrightarrow>
    visual (loading (fst (handleImageEdit_begin editPrompt s)))
    \<and> error (fst (handleImageEdit_begin editPrompt s)) = None
    \<and> visualContent (fst (handleImageEdit_begin editPrompt s)) = visualContent s"
  by (auto simp add: handleImageEdit_begin_def split: if_splits option.splits)

lemma handleImageEdit_begin_idle:
  "snd (handleImageEdit_begin editPrompt s) = None \<Longrightarrow>
    fst (handleImageEdit_begin editPrompt s) = s"
  by (auto simp add: handleImageEdit_begin_def split: if_splits option.splits)

text \<open>The edit writes the visual content when it settles, and only on success.\<close>

lemma handleImageEdit_settle_visual:
  "visualContent (handleImageEdit_settle (Inl e) s) = visualContent s
   \<and> visualContent (handleImageEdit_settle (Inr (base64, mime)) s)
       = Some \<lparr>vtype = Image, data = imageDataUrl mime base64, mimeType = Some mime\<rparr>"
  by (simp add: handleImageEdit_settle_def Let_def)

text \<open>
  An event after which a request for a visual is pending, in a state in which none
  was: what it leaves of the error message and of the visual content.
\<close>

lemma after_effect_enters_pending:
  assumes "\<not> visual (loading sa)" and "visual (loading (fst (visual_effect before sa)))"
  shows "error (fst (visual_effect before sa)) = None
    \<and> visualContent (fst (visual_effect before sa)) = None"
proof (cases "snd (visual_effect before sa)")
  case None
  with assms visual_effect_idle [of before sa] show ?thesis by simp
next
  case (Some r)
  with visual_effect_clears [of before sa] show ?thesis by simp
qed

lemma TopicInput_not_visual:
  "\<not> visual (loading s) \<Longrightarrow> \<not> visual (loading (fst (TopicInput_handleSubmit t ty s)))"
  by (simp add: TopicInput_handleSubmit_def handleTopicSubmit_begin_def Let_def)

lemma plan_settle_not_visual: "\<not> visual (loading (handleTopicSubmit_settle outcome s))"
  by (simp add: handleTopicSubmit_settle_def Let_def split: sum.splits)

lemma goToStep_loading: "loading (goToStep i s) = loading s"
  by (simp add: goToStep_def)

lemma image_settle_not_visual: "\<not> visual (loading (generateVisual_image_settle outcome s))"
  by (simp add: generateVisual_image_settle_def Let_def split: sum.splits prod.splits)

lemma video_settle_not_visual: "\<not> visual (loading (generateVisual_video_settle outcome s))"
  by (simp add: generateVisual_video_settle_def Let_def split: sum.splits)

lemma edit_settle_not_visual: "\<not> visual (loading (handleImageEdit_settle outcome s))"
  by (simp add: handleImageEdit_settle_def Let_def split: sum.splits prod.splits)

lemma fire_enters_pending:
  assumes idle: "\<not> visual (loading s)" and pending: "visual (loading (fire ev s))"
  shows "error (fire ev s) = None
    \<and> (case ev of
          SubmitEdit text_in \<Rightarrow> visualContent (fire ev s) = visualContent s
        | _ \<Rightarrow> visualContent (fire ev s) = None)"
proof (cases ev)
  case (SubmitTopic t ty)
  with pending after_effect_enters_pending [OF TopicInput_not_visual [OF idle, of t ty], of s]
  show ?thesis by simp
next
  case (PlanSettled outcome)
  with idle pending after_effect_enters_pending [OF plan_settle_not_visual, of s outcome s]
  show ?thesis by (simp split: if_splits)
next
  case (GoToStep i)
  with idle pending after_effect_enters_pending [of "goToStep i s" s]
  show ?thesis by (simp add: goToStep_loading)
next
  case (SubmitEdit text_in)
  show ?thesis
  proof (cases "snd (ImageEditor_handleEdit text_in s)")
    case None
    with idle pending SubmitEdit handleImageEdit_begin_idle [of "trim text_in" s]
    show ?thesis by (simp add: ImageEditor_handleEdit_def split: if_splits)
  next
    case (Some r)
    with SubmitEdit handleImageEdit_begin_keeps [of "trim text_in" s]
    show ?thesis by (simp add: ImageEditor_handleEdit_def split: if_splits)
  qed
next
  case (RegenerateClick style)
  show ?thesis
  proof (cases "snd (VideoOptions_handleRegenerateClick style s)")
    case None
    with idle pending RegenerateClick generateVisual_begin_idle [of "Some style" s]
    show ?thesis
      by (simp add: VideoOptions_handleRegenerateClick_def handleVideoRegenerate_def
          split: if_splits)
  next
    case (Some r)
    with RegenerateClick generateVisual_begin_clears [of "Some style" s]
    show ?thesis
      by (simp add: VideoOptions_handleRegenerateClick_def handleVideoRegenerate_def
          split: if_splits)
  qed
next
  case (ImageSettled outcome)
  with pending image_settle_not_visual [of outcome s] show ?thesis by simp
next
  case (VideoProgress message)
  with idle pending show ?thesis by (simp add: setVideoStatus_def)
next
  case (VideoSettled outcome)
  with pending video_settle_not_visual [of outcome s] show ?thesis by simp
next
  case (EditSettled outcome)
  with pending edit_settle_not_visual [of outcome s] show ?thesis by simp
qed

text \<open>
  Claim C1, as the code has it. A trigger that generates a visual (the effect after a
  new plan or a change of the index, an explicit call of
  \<^verbatim>\<open>generateVisualForCurrentStep\<close>, a regeneration) enters the pending state with the
  visual content and the error message cleared. An edit enters the pending state with
  the error message cleared and the visual content kept: it is the image that is being
  edited. The edit handler never clears it: when the edit settles, a failure leaves the
  visual content as it is then, and a success replaces it by the edited image. The same
  holds of the component as a whole: an event that takes it from a state with no
  request for a visual pending to a state with one leaves no error message, and no
  visual content unless the event is the submission of an edit, which keeps the visual
  content.
\<close>

theorem pending_clears_visual_except_edit:
  "(generateVisualForCurrentStep_begin styleOverride s = (sa, Some ra) \<longrightarrow>
      visual (loading sa) \<and> visualContent sa = None \<and> error sa = None)
   \<and> (visual_effect before s = (sb, Some rb) \<longrightarrow>
      visual (loading sb) \<and> visualContent sb = None \<and> error sb = None)
   \<and> (handleVideoRegenerate newStyle s = (sc, Some rc) \<longrightarrow>
      visual (loading sc) \<and> visualContent sc = None \<and> error sc = None)
   \<and> (handleImageEdit_begin editPrompt s = (sd, Some rd) \<longrightarrow>
      visual (loading sd) \<and> error sd = None \<and> visualContent sd = visualContent s)
   \<and> visualContent (handleImageEdit_settle (Inl e) later) = visualContent later
   \<and> visualContent (handleImageEdit_settle (Inr (base64, mime)) later)
       = Some \<lparr>vtype = Image, data = imageDataUrl mime base64, mimeType = Some mime\<rparr>
   \<and> (\<not> visual (loading s) \<and> visual (loading (fire ev s)) \<longrightarrow>
      error (fire ev s) = None
      \<and> (case ev of
            SubmitEdit text_in \<Rightarrow> visualContent (fire ev s) = visualContent s
          | _ \<Rightarrow> visualContent (fire ev s) = None))"
proof -
  have p1: "generateVisualForCurrentStep_begin styleOverride s = (sa, Some ra) \<longrightarrow>
      visual (loading sa) \<and> visualContent sa = None \<and> error sa = None"
    using generateVisual_begin_clears [of styleOverride s] by auto
  have p2: "visual_effect before s = (sb, Some rb) \<longrightarrow>
      visual (loading sb) \<and> visualContent sb = None \<and> error sb = None"
    using visual_effect_clears [of before s] by auto
  have p3: "handleVideoRegenerate newStyle s = (sc, Some rc) \<longrightarrow>
      visual (loading sc) \<and> visualContent sc = None \<and> error sc = None"
    using generateVisual_begin_clears [of "Some newStyle" s]
    by (auto simp add: handleVideoRegenerate_def)
  have p4: "handleImageEdit_begin editPrompt s = (sd, Some rd) \<longrightarrow>
      visual (loading sd) \<and> error sd = None \<and> visualContent sd = visualContent s"
    using handleImageEdit_begin_keeps [of editPrompt s] by auto
  have p5: "visualContent (handleImageEdit_settle (Inl e) later) = visualContent later"
    using handleImageEdit_settle_visual [of e later] by simp
  have p6: "visualContent (handleImageEdit_settle (Inr (base64, mime)) later)
       = Some \<lparr>vtype = Image, data = imageDataUrl mime base64, mimeType = Some mime\<rparr>"
    using handleImageEdit_settle_visual [of _ later base64 mime] by simp
  have p7: "\<not> visual (loading s) \<and> visual (loading (fire ev s)) \<longrightarrow>
      error (fire ev s) = None
      \<and> (case ev of
            SubmitEdit text_in \<Rightarrow> visualContent (fire ev s) = visualContent s
          | _ \<Rightarrow> visualContent (fire ev s) = None)"
    using fire_enters_pending [of s ev] by blast
  show ?thesis
    by (intro conjI) (fact p1, fact p2, fact p3, fact p4, fact p5, fact p6, fact p7)
qed

theorem pending_clears_visual_except_edit_witness:
  "snd (generateVisualForCurrentStep_begin None imageShown)
      = Some (GenerateImage ''A labeled diagram.'')
   \<and> visualContent (fst (generateVisualForCurrentStep_begin None imageShown)) = None
   \<and> error (fst (generateVisualForCurrentStep_begin None imageShown)) = None
   \<and> snd (visual_effect imageShown (goToStep 0 imageShown))
      = Some (GenerateImage ''A labeled diagram.'')
   \<and> visualContent (fst (visual_effect imageShown (goToStep 0 imageShown))) = None
   \<and> error (fst (visual_effect imageShown (goToStep 0 imageShown))) = None
   \<and> snd (handleVideoRegenerate Realistic videoShown)
      = Some (GenerateVideo ''An animation.'' Realistic)
   \<and> visualContent (fst (handleVideoRegenerate Realistic videoShown)) = None
   \<and> snd (handleImageEdit_begin ''add labels'' imageShown)
      = Some (EditImage (Some ''iVBORw0KGgo='') ''image/png'' ''add labels'')
   \<and> error (fst (handleImageEdit_begin ''add labels'' imageShown)) = None
   \<and> visualContent (fst (handleImageEdit_begin ''add labels'' imageShown))
      = visualContent imageShown
   \<and> visualContent (handleImageEdit_settle (Inl (Error ''Image editing failed.'')) editPending)
      = visualContent imageShown
   \<and> \<not> visual (loading imageShown)
   \<and> visual (loading (fire (GoToStep 0) imageShown))
   \<and> error (fire (GoToStep 0) imageShown) = None
   \<and> visualContent (fire (GoToStep 0) imageShown) = None
   \<and> visual (loading (fire (SubmitEdit ''add labels'') imageShown))
   \<and> error (fire (SubmitEdit ''add labels'') imageShown) = None
   \<and> visualContent (fire (SubmitEdit ''add labels'') imageShown) = visualContent imageShown"
proof -
  have h1: "snd (generateVisualForCurrentStep_begin None imageShown)
      = Some (GenerateImage ''A labeled diagram.'')"
    by code_simp
  have h2: "snd (visual_effect imageShown (goToStep 0 imageShown))
      = Some (GenerateImage ''A labeled diagram.'')"
    by code_simp
  have h3: "snd (handleVideoRegenerate Realistic videoShown)
      = Some (GenerateVideo ''An animation.'' Realistic)"
    by code_simp
  have h4: "snd (handleImageEdit_begin ''add labels'' imageShown)
      = Some (EditImage (Some ''iVBORw0KGgo='') ''image/png'' ''add labels'')"
    by code_simp
  have h5: "\<not> visual (loading imageShown)"
    by (simp add: imageShown_def)
  have h6: "visual (loading (fire (GoToStep 0) imageShown))"
    by code_simp
  have h7: "visual (loading (fire (SubmitEdit ''add labels'') imageShown))"
    by code_simp
  from h1 h4
    pending_clears_visual_except_edit [where s = imageShown and styleOverride = None
      and sa = "fst (generateVisualForCurrentStep_begin None imageShown)"
      and ra = "GenerateImage ''A labeled diagram.''"
      and editPrompt = "''add labels''"
      and sd = "fst (handleImageEdit_begin ''add labels'' imageShown)"
      and rd = "EditImage (Some ''iVBORw0KGgo='') ''image/png'' ''add labels''"
      and e = "Error ''Image editing failed.''" and later = editPending]
  have a: "visualContent (fst (generateVisualForCurrentStep_begin None imageShown)) = None
      \<and> error (fst (generateVisualForCurrentStep_begin None imageShown)) = None
      \<and> error (fst (handleImageEdit_begin ''add labels'' imageShown)) = None
      \<and> visualContent (fst (handleImageEdit_begin ''add labels'' imageShown))
          = visualContent imageShown
      \<and> visualContent (handleImageEdit_settle (Inl (Error ''Image editing failed.'')) editPending)
          = visualContent imageShown"
    by (simp add: prod_eq_iff editPending_def)
  from h2
    pending_clears_visual_except_edit [where s = "goToStep 0 imageShown"
      and before = imageShown
      and sb = "fst (visual_effect imageShown (goToStep 0 imageShown))"
      and rb = "GenerateImage ''A labeled diagram.''"]
  have b: "visualContent (fst (visual_effect imageShown (goToStep 0 imageShown))) = None
      \<and> error (fst (visual_effect imageShown (goToStep 0 imageShown))) = None"
    by (simp add: prod_eq_iff)
  from h3
    pending_clears_visual_except_edit [where s = videoShown and newStyle = Realistic
      and sc = "fst (handleVideoRegenerate Realistic videoShown)"
      and rc = "GenerateVideo ''An animation.'' Realistic"]
  have c: "visualContent (fst (handleVideoRegenerate Realistic videoShown)) = None"
    by (simp add: prod_eq_iff)
  from h5 h6
    pending_clears_visual_except_edit [where s = imageShown and ev = "GoToStep 0"]
  have d: "error (fire (GoToStep 0) imageShown) = None
      \<and> visualContent (fire (GoToStep 0) imageShown) = None"
    by simp
  from h5 h7
    pending_clears_visual_except_edit [where s = imageShown and ev = "SubmitEdit ''add labels''"]
  have e: "error (fire (SubmitEdit ''add labels'') imageShown) = None
      \<and> visualContent (fire (SubmitEdit ''add labels'') imageShown) = visualContent imageShown"
    by simp
  from h1 h2 h3 h4 h5 h6 h7 a b c d e show ?thesis by simp
qed

text \<open>
  Another trigger may clear the image while the edit is pending: the step buttons stay
  enabled, and a change of the step clears the visual content for its own request.
\<close>

lemma navigation_clears_image_under_edit:
  "visualContent editPending = visualContent imageShown
   \<and> visualContent (fire (GoToStep 0) editPending) = None"
  by code_simp

text \<open>
  The claim as the specification words it fails for the edit trigger: editing the image
  of the third step enters the pending state with the image still held.
\<close>

theorem edit_enters_pending_with_visual:
  "visual (loading (fst (handleImageEdit_begin ''add labels'' imageShown)))
   \<and> snd (handleImageEdit_begin ''add labels'' imageShown)
       = Some (EditImage (Some ''iVBORw0KGgo='') ''image/png'' ''add labels'')
   \<and> visualContent (fst (handleImageEdit_begin ''add labels'' imageShown))
       = Some \<lparr>vtype = Image, data = ''data:image/png;base64,iVBORw0KGgo='',
                mimeType = Some ''image/png''\<rparr>"
  by code_simp

section \<open>The index stays inside the plan\<close>

lemma well_indexed_same_position: "same_position s' s \<Longrightarrow> well_indexed s \<Longrightarrow> well_indexed s'"
  by (simp add: well_indexed_def same_position_def index_in_plan_def)

lemma generateVisual_begin_position:
  "same_position (fst (generateVisualForCurrentStep_begin styleOverride s)) s"
  by (simp add: generateVisualForCurrentStep_begin_def setVideoStatus_def same_position_def
      Let_def split: option.splits visual_type.splits)

lemma visual_effect_position: "same_position (fst (visual_effect before s)) s"
  using generateVisual_begin_position [of None s]
  by (simp add: visual_effect_def same_position_def)

lemma handleImageEdit_begin_position: "same_position (fst (handleImageEdit_begin p s)) s"
  by (simp add: handleImageEdit_begin_def same_position_def split: option.splits)

lemma ImageEditor_handleEdit_position: "same_position (fst (ImageEditor_handleEdit p s)) s"
  using handleImageEdit_begin_position [of "trim p" s]
  by (simp add: ImageEditor_handleEdit_def same_position_def)

lemma VideoOptions_position:
  "same_position (fst (VideoOptions_handleRegenerateClick style s)) s"
  using generateVisual_begin_position [of "Some style" s]
  by (simp add: VideoOptions_handleRegenerateClick_def handleVideoRegenerate_def
      same_position_def)

lemma image_settle_position: "same_position (generateVisual_image_settle outcome s) s"
  by (simp add: generateVisual_image_settle_def same_position_def Let_def
      split: sum.splits prod.splits)

lemma video_settle_position: "same_position (generateVisual_video_settle outcome s) s"
  by (simp add: generateVisual_video_settle_def same_position_def Let_def split: sum.splits)

lemma edit_settle_position: "same_position (handleImageEdit_settle outcome s) s"
  by (simp add: handleImageEdit_settle_def same_position_def Let_def
      split: sum.splits prod.splits)

lemma setVideoStatus_position: "same_position (setVideoStatus message s) s"
  by (simp add: setVideoStatus_def same_position_def)

lemma TopicInput_well_indexed:
  "well_indexed s \<Longrightarrow> well_indexed (fst (TopicInput_handleSubmit t ty s))"
  by (auto simp add: TopicInput_handleSubmit_def handleTopicSubmit_begin_def well_indexed_def
      index_in_plan_def Let_def)

text \<open>
  The plan arrives while \<^verbatim>\<open>loading.plan\<close> is set, when the plan is empty and the index
  is 0: a new plan that is not empty has the index 0.
\<close>

lemma plan_settle_well_indexed:
  "well_indexed s \<Longrightarrow> plan (loading s) \<Longrightarrow> well_indexed (handleTopicSubmit_settle outcome s)"
  by (auto simp add: handleTopicSubmit_settle_def well_indexed_def index_in_plan_def Let_def
      split: sum.splits)

lemma goToStep_well_indexed: "well_indexed s \<Longrightarrow> well_indexed (goToStep i s)"
  by (auto simp add: goToStep_def well_indexed_def index_in_plan_def)

text \<open>The array that the \<^verbatim>\<open>try\<close> block takes from a link is not empty.\<close>

lemma loadShared_not_empty: "loadShared JSON_parse sharedData = Some (t, p) \<Longrightarrow> p \<noteq> []"
  by (auto simp add: loadShared_def split: option.splits json.splits if_splits)

lemma loadSimulationFromURL_initial:
  "loadSimulationFromURL JSON_parse (initialState search) = Typed s \<Longrightarrow> well_indexed s"
  by (auto simp add: loadSimulationFromURL_def initialState_def well_indexed_def
      index_in_plan_def split: option.splits if_splits)

lemma loadSimulationFromURL_untyped:
  assumes "loadSimulationFromURL JSON_parse (initialState search) = Untyped t p s"
  shows "currentStepIndex s = 0 \<and> p \<noteq> []"
proof -
  from assms obtain sharedData where
    "loadShared JSON_parse sharedData = Some (t, p)"
    and "s = (initialState search)\<lparr>location_search := []\<rparr>"
    by (auto simp add: loadSimulationFromURL_def split: option.splits if_splits)
  with loadShared_not_empty [of JSON_parse sharedData t p] show ?thesis
    by (simp add: initialState_def)
qed

lemma mount_well_indexed:
  assumes "mount JSON_parse search = Some (s, r)"
  shows "well_indexed s"
proof -
  from assms obtain loaded_state where
    l: "loadSimulationFromURL JSON_parse (initialState search) = Typed loaded_state"
    and e: "visual_effect (initialState search) loaded_state = (s, r)"
    by (auto simp add: mount_def split: loaded.splits)
  from e have "s = fst (visual_effect (initialState search) loaded_state)"
    by simp
  with well_indexed_same_position [OF visual_effect_position loadSimulationFromURL_initial [OF l]]
  show ?thesis by simp
qed

lemma fire_well_indexed:
  assumes "well_indexed s"
  shows "well_indexed (fire e s)"
proof (cases e)
  case (SubmitTopic t ty)
  then show ?thesis
    using assms well_indexed_same_position [OF visual_effect_position] TopicInput_well_indexed
    by simp
next
  case (PlanSettled outcome)
  then show ?thesis
    using assms well_indexed_same_position [OF visual_effect_position] plan_settle_well_indexed
    by simp
next
  case (GoToStep i)
  then show ?thesis
    using assms well_indexed_same_position [OF visual_effect_position] goToStep_well_indexed
    by simp
next
  case (SubmitEdit p)
  then show ?thesis
    using assms well_indexed_same_position [OF ImageEditor_handleEdit_position] by simp
next
  case (RegenerateClick style)
  then show ?thesis
    using assms well_indexed_same_position [OF VideoOptions_position] by simp
next
  case (ImageSettled outcome)
  then show ?thesis
    using assms well_indexed_same_position [OF image_settle_position] by simp
next
  case (VideoProgress message)
  then show ?thesis
    using assms well_indexed_same_position [OF setVideoStatus_position] by simp
next
  case (VideoSettled outcome)
  then show ?thesis
    using assms well_indexed_same_position [OF video_settle_position] by simp
next
  case (EditSettled outcome)
  then show ?thesis
    using assms well_indexed_same_position [OF edit_settle_position] by simp
qed

lemma reachable_well_indexed: "reachable s \<Longrightarrow> well_indexed s"
proof (induction rule: reachable.induct)
  case (mounted JSON_parse search s r)
  then show ?case by (rule mount_well_indexed)
next
  case (fired s e)
  then show ?case by (simp add: fire_well_indexed)
qed

lemma same_position_trans:
  "same_position s'' s' \<Longrightarrow> same_position s' s \<Longrightarrow> same_position s'' s"
  by (simp add: same_position_def)

lemma progress_position:
  "same_position (foldl (\<lambda>st message. setVideoStatus message st) s progress) s"
proof (induction progress arbitrary: s)
  case Nil
  show ?case by (simp add: same_position_def)
next
  case (Cons message progress)
  show ?case
    using same_position_trans [OF Cons.IH [of "setVideoStatus message s"]
        setVideoStatus_position [of message s]]
    by simp
qed

text \<open>The handlers run to completion keep the invariant.\<close>

lemma handleTopicSubmit_in_plan: "index_in_plan (handleTopicSubmit ai JSON_parse t ty s)"
  by (simp add: handleTopicSubmit_def handleTopicSubmit_settle_def handleTopicSubmit_begin_def
      index_in_plan_def Let_def split: sum.splits)

lemma index_in_plan_same_position:
  "same_position s' s \<Longrightarrow> index_in_plan s \<Longrightarrow> index_in_plan s'"
  by (simp add: same_position_def index_in_plan_def)

lemma handleImageEdit_position: "same_position (handleImageEdit ai editPrompt s) s"
proof (cases "handleImageEdit_begin editPrompt s")
  case (Pair sa r)
  have b: "same_position sa s"
    using handleImageEdit_begin_position [of editPrompt s] Pair by simp
  show ?thesis
  proof (cases r)
    case None
    with Pair b show ?thesis by (simp add: handleImageEdit_def)
  next
    case (Some req)
    with Pair b same_position_trans [OF edit_settle_position b] show ?thesis
      by (cases req) (simp_all add: handleImageEdit_def)
  qed
qed

lemma generateVisualForCurrentStep_position:
  assumes "generateVisualForCurrentStep ai styleOverride s = Some s'"
  shows "same_position s' s"
proof (cases "generateVisualForCurrentStep_begin styleOverride s")
  case (Pair sa r)
  have b: "same_position sa s"
    using generateVisual_begin_position [of styleOverride s] Pair by simp
  show ?thesis
  proof (cases r)
    case None
    with Pair b assms show ?thesis by (simp add: generateVisualForCurrentStep_def)
  next
    case (Some req)
    show ?thesis
    proof (cases req)
      case (GenerateSimulationPlan x y)
      with Pair Some b assms show ?thesis by (simp add: generateVisualForCurrentStep_def)
    next
      case (GenerateImage p)
      with Pair Some assms same_position_trans [OF image_settle_position b] show ?thesis
        by (auto simp add: generateVisualForCurrentStep_def)
    next
      case (GenerateVideo p style)
      with Pair Some assms obtain progress outcome where
        "s' = generateVisual_video_settle outcome
                (foldl (\<lambda>st message. setVideoStatus message st) sa progress)"
        by (auto simp add: generateVisualForCurrentStep_def split: option.splits)
      then show ?thesis
        using same_position_trans [OF video_settle_position
            same_position_trans [OF progress_position b]]
        by simp
    next
      case (EditImage x y z)
      with Pair Some b assms show ?thesis by (simp add: generateVisualForCurrentStep_def)
    qed
  qed
qed

text \<open>
  Claim C8. In every state the component reaches, by mounting on a URL and then by
  any sequence of topic submissions, plan settlements, step navigations, edits,
  regenerations and settlements of visual requests, the current index is within
  \<open>[0, length - 1]\<close> of the plan, or the plan is empty and the index is 0. Moreover
  every operation run to completion keeps this invariant: the state after mounting and
  the state after a topic submission have it, and step navigation, an edit and a
  generation or regeneration of the visual preserve it. The URL is any URL but one: a
  link whose value is applied although it is not a string with steps puts the
  component in a state from which it is not followed here. That state has the index 0
  and, in the plan, an array that is not empty: the index is inside the array there
  too.
\<close>

theorem index_always_in_plan:
  "(reachable s \<longrightarrow> index_in_plan s)
   \<and> (mount shared_parse search = Some (sm, rm) \<longrightarrow> index_in_plan sm)
   \<and> (loadSimulationFromURL shared_parse (initialState search) = Untyped t p su \<longrightarrow>
        currentStepIndex su = 0 \<and> p \<noteq> [])
   \<and> index_in_plan (handleTopicSubmit ai JSON_parse newTopic ty s)
   \<and> (index_in_plan s \<longrightarrow>
        index_in_plan (goToStep i s)
        \<and> index_in_plan (handleImageEdit ai editPrompt s)
        \<and> (generateVisualForCurrentStep ai styleOverride s = Some s' \<longrightarrow> index_in_plan s'))"
proof -
  have a: "reachable s \<longrightarrow> index_in_plan s"
    using reachable_well_indexed [of s] by (simp add: well_indexed_def)
  have b: "mount shared_parse search = Some (sm, rm) \<longrightarrow> index_in_plan sm"
    using mount_well_indexed [of shared_parse search sm rm] by (simp add: well_indexed_def)
  have u: "loadSimulationFromURL shared_parse (initialState search) = Untyped t p su \<longrightarrow>
        currentStepIndex su = 0 \<and> p \<noteq> []"
    using loadSimulationFromURL_untyped [of shared_parse search t p su] by blast
  have c: "index_in_plan s \<longrightarrow>
        index_in_plan (goToStep i s)
        \<and> index_in_plan (handleImageEdit ai editPrompt s)
        \<and> (generateVisualForCurrentStep ai styleOverride s = Some s' \<longrightarrow> index_in_plan s')"
    using index_in_plan_same_position [OF handleImageEdit_position, of s ai editPrompt]
      index_in_plan_same_position [OF generateVisualForCurrentStep_position, of ai styleOverride s s']
    by (auto simp add: goToStep_def index_in_plan_def)
  show ?thesis
    by (intro conjI) (fact a, fact b, fact u, fact handleTopicSubmit_in_plan, fact c)
qed

theorem index_always_in_plan_witness:
  "mount noSharedJSON [] = Some (initialState [], None)
   \<and> index_in_plan (initialState [])
   \<and> loadSimulationFromURL parseUnchecked (initialState (''?simulation='' @ uncheckedParam))
       = Untyped (JNumber (Finite False 7 0)) [JNumber (Finite False 1 0)] (initialState [])
   \<and> currentStepIndex (initialState []) = 0
   \<and> reachable thirdStepSelected \<and> index_in_plan thirdStepSelected
   \<and> topic thirdStepSelected = ''Photosynthesis''
   \<and> currentStepIndex thirdStepSelected = 2 \<and> length (simulationPlan thirdStepSelected) = 4
   \<and> index_in_plan (goToStep 3 thirdStepSelected)
   \<and> index_in_plan (goToStep 4 thirdStepSelected)
   \<and> index_in_plan (handleImageEdit threePolls ''add labels'' thirdStepSelected)
   \<and> generateVisualForCurrentStep threePolls None thirdStepSelected \<noteq> None
   \<and> index_in_plan (the (generateVisualForCurrentStep threePolls None thirdStepSelected))"
proof -
  have m: "mount noSharedJSON [] = Some (initialState [], None)"
    by code_simp
  have l: "loadSimulationFromURL parseUnchecked (initialState (''?simulation='' @ uncheckedParam))
       = Untyped (JNumber (Finite False 7 0)) [JNumber (Finite False 1 0)] (initialState [])"
    by code_simp
  have r: "reachable thirdStepSelected"
    unfolding thirdStepSelected_def
    by (intro reachable.fired) (rule reachable.mounted [OF m])
  have v: "topic thirdStepSelected = ''Photosynthesis''
      \<and> currentStepIndex thirdStepSelected = 2 \<and> length (simulationPlan thirdStepSelected) = 4"
    by code_simp
  have g: "generateVisualForCurrentStep threePolls None thirdStepSelected \<noteq> None"
    by code_simp
  then obtain s' where g': "generateVisualForCurrentStep threePolls None thirdStepSelected = Some s'"
    by auto
  from m l r v g g'
    index_always_in_plan [where s = thirdStepSelected and i = 3 and ai = threePolls
      and editPrompt = "''add labels''" and styleOverride = None and s' = s'
      and shared_parse = noSharedJSON and search = "[]" and sm = "initialState []"
      and rm = None]
    index_always_in_plan [where s = thirdStepSelected and i = 4
      and shared_parse = parseUnchecked and search = "''?simulation='' @ uncheckedParam"
      and t = "JNumber (Finite False 7 0)" and p = "[JNumber (Finite False 1 0)]"
      and su = "initialState []"]
  show ?thesis by simp
qed

section \<open>Submitting a topic\<close>

lemma handleTopicSubmit_begin_fields:
  "topic (fst (handleTopicSubmit_begin t ty s)) = t
   \<and> simulationPlan (fst (handleTopicSubmit_begin t ty s)) = []
   \<and> currentStepIndex (fst (handleTopicSubmit_begin t ty s)) = 0
   \<and> visualContent (fst (handleTopicSubmit_begin t ty s)) = None
   \<and> error (fst (handleTopicSubmit_begin t ty s)) = None
   \<and> loading (fst (handleTopicSubmit_begin t ty s)) = \<lparr>plan = True, visual = False\<rparr>
   \<and> videoStatus (fst (handleTopicSubmit_begin t ty s)) = videoStatus s"
  by (simp add: handleTopicSubmit_begin_def Let_def)

lemma settle_empty_plan:
  "error (handleTopicSubmit_settle (Inr []) s)
     = Some ''Could not generate a simulation plan for this topic. Please try another one.''
   \<and> simulationPlan (handleTopicSubmit_settle (Inr []) s) = simulationPlan s
   \<and> topic (handleTopicSubmit_settle (Inr []) s) = topic s
   \<and> currentStepIndex (handleTopicSubmit_settle (Inr []) s) = currentStepIndex s
   \<and> visualContent (handleTopicSubmit_settle (Inr []) s) = visualContent s"
  by (simp add: handleTopicSubmit_settle_def Let_def)

lemma settle_plan:
  "steps \<noteq> [] \<Longrightarrow>
   simulationPlan (handleTopicSubmit_settle (Inr steps) s) = steps
   \<and> error (handleTopicSubmit_settle (Inr steps) s) = error s
   \<and> topic (handleTopicSubmit_settle (Inr steps) s) = topic s
   \<and> currentStepIndex (handleTopicSubmit_settle (Inr steps) s) = currentStepIndex s
   \<and> visualContent (handleTopicSubmit_settle (Inr steps) s) = visualContent s
   \<and> loading (handleTopicSubmit_settle (Inr steps) s) = \<lparr>plan = False, visual = False\<rparr>"
  by (simp add: handleTopicSubmit_settle_def Let_def)

text \<open>
  Claim C5. For every prior state, submitting a topic clears the visual content and the
  error message at once; when the plan request returns the array \<open>steps\<close>, the topic is
  the new topic, the plan is \<open>steps\<close>, the index is 0 and the visual content is still
  empty; and when \<open>steps\<close> is not empty the error message is empty as well and the
  effect of the next render issues the first visual request of the new plan, from that
  state.
\<close>

theorem submit_resets_session:
  assumes "generateSimulationPlan ai JSON_parse newTopic ty = Inr steps"
  shows "visualContent (fst (handleTopicSubmit_begin newTopic ty s)) = None
    \<and> error (fst (handleTopicSubmit_begin newTopic ty s)) = None
    \<and> topic (handleTopicSubmit ai JSON_parse newTopic ty s) = newTopic
    \<and> simulationPlan (handleTopicSubmit ai JSON_parse newTopic ty s) = steps
    \<and> currentStepIndex (handleTopicSubmit ai JSON_parse newTopic ty s) = 0
    \<and> visualContent (handleTopicSubmit ai JSON_parse newTopic ty s) = None
    \<and> (steps \<noteq> [] \<longrightarrow>
         error (handleTopicSubmit ai JSON_parse newTopic ty s) = None
         \<and> visual_effect (fst (handleTopicSubmit_begin newTopic ty s))
              (handleTopicSubmit ai JSON_parse newTopic ty s)
            = generateVisualForCurrentStep_begin None (handleTopicSubmit ai JSON_parse newTopic ty s)
         \<and> snd (generateVisualForCurrentStep_begin None
                  (handleTopicSubmit ai JSON_parse newTopic ty s)) \<noteq> None)"
proof (cases "steps = []")
  case True
  then show ?thesis
    using settle_empty_plan [of "fst (handleTopicSubmit_begin newTopic ty s)"]
      handleTopicSubmit_begin_fields [of newTopic ty s]
    by (simp add: handleTopicSubmit_def assms)
next
  case False
  have f: "simulationPlan (handleTopicSubmit ai JSON_parse newTopic ty s) = steps
     \<and> error (handleTopicSubmit ai JSON_parse newTopic ty s) = None
     \<and> topic (handleTopicSubmit ai JSON_parse newTopic ty s) = newTopic
     \<and> currentStepIndex (handleTopicSubmit ai JSON_parse newTopic ty s) = 0
     \<and> visualContent (handleTopicSubmit ai JSON_parse newTopic ty s) = None"
    using settle_plan [OF False, of "fst (handleTopicSubmit_begin newTopic ty s)"]
      handleTopicSubmit_begin_fields [of newTopic ty s]
    by (simp add: handleTopicSubmit_def assms)
  have e: "visual_effect (fst (handleTopicSubmit_begin newTopic ty s))
              (handleTopicSubmit ai JSON_parse newTopic ty s)
            = generateVisualForCurrentStep_begin None (handleTopicSubmit ai JSON_parse newTopic ty s)"
    using f False handleTopicSubmit_begin_fields [of newTopic ty s]
    by (simp add: visual_effect_def)
  have r: "snd (generateVisualForCurrentStep_begin None
                  (handleTopicSubmit ai JSON_parse newTopic ty s)) \<noteq> None"
    using f False
    by (cases steps)
      (simp_all add: generateVisualForCurrentStep_begin_def at_index_def Let_def
        split: visual_type.splits)
  show ?thesis
    using f e r handleTopicSubmit_begin_fields [of newTopic ty s] by simp
qed

theorem submit_resets_session_witness:
  "generateSimulationPlan photosynthesisReply parsePhotosynthesis ''Photosynthesis'' Image
      = Inr photosynthesisPlan
   \<and> visualContent imageShown \<noteq> None \<and> error imageShown \<noteq> None
   \<and> currentStepIndex imageShown = 2
   \<and> topic (handleTopicSubmit photosynthesisReply parsePhotosynthesis ''Photosynthesis'' Image
        imageShown) = ''Photosynthesis''
   \<and> simulationPlan (handleTopicSubmit photosynthesisReply parsePhotosynthesis
        ''Photosynthesis'' Image imageShown) = photosynthesisPlan
   \<and> currentStepIndex (handleTopicSubmit photosynthesisReply parsePhotosynthesis
        ''Photosynthesis'' Image imageShown) = 0
   \<and> visualContent (handleTopicSubmit photosynthesisReply parsePhotosynthesis
        ''Photosynthesis'' Image imageShown) = None
   \<and> error (handleTopicSubmit photosynthesisReply parsePhotosynthesis
        ''Photosynthesis'' Image imageShown) = None
   \<and> snd (generateVisualForCurrentStep_begin None
        (handleTopicSubmit photosynthesisReply parsePhotosynthesis ''Photosynthesis'' Image
          imageShown)) \<noteq> None"
proof -
  have h: "generateSimulationPlan photosynthesisReply parsePhotosynthesis ''Photosynthesis'' Image
      = Inr photosynthesisPlan"
    by code_simp
  have n: "photosynthesisPlan \<noteq> []"
    by (simp add: photosynthesisPlan_def)
  have i: "visualContent imageShown \<noteq> None \<and> error imageShown \<noteq> None
      \<and> currentStepIndex imageShown = 2"
    by (simp add: imageShown_def)
  from h n i submit_resets_session [OF h, of imageShown] show ?thesis by simp
qed

section \<open>Editing the image\<close>

text \<open>
  Claim C6. The image-edit operation is invoked by submitting the edit form, whose
  \<^verbatim>\<open>handleEdit\<close> is the only caller of \<^verbatim>\<open>handleImageEdit\<close>. Submitting the form changes
  nothing and issues no request whenever there is no visual content, the visual content
  is not an image, or a request for a visual is pending (the visual loading flag is
  set). The two functions share the work: \<^verbatim>\<open>handleImageEdit\<close> returns at once, with
  the state as it is, when there is no visual content, when it is not an image and when
  it has no MIME type; the form is not rendered while the flag is set, and its
  \<^verbatim>\<open>handleEdit\<close> calls nothing then. So every request for an edit starts in a state
  that holds an image and in which no request for a visual is pending.
\<close>

theorem edit_ignored_when_invalid:
  "(visualContent s = None \<or> (visualContent s = Some vc \<and> vtype vc \<noteq> Image)
        \<or> visual (loading s) \<longrightarrow>
      ImageEditor_handleEdit text_in s = (s, None) \<and> fire (SubmitEdit text_in) s = s)
   \<and> (visualContent s = None \<longrightarrow>
      handleImageEdit_begin editPrompt s = (s, None) \<and> handleImageEdit ai editPrompt s = s)
   \<and> (visualContent s = Some vc
        \<and> (vtype vc \<noteq> Image \<or> mimeType vc = None \<or> mimeType vc = Some []) \<longrightarrow>
      handleImageEdit_begin editPrompt s = (s, None) \<and> handleImageEdit ai editPrompt s = s)
   \<and> (visualContent s = Some vc \<and> vtype vc = Image \<and> mimeType vc = Some mime \<and> mime \<noteq> [] \<longrightarrow>
      snd (handleImageEdit_begin editPrompt s)
        = Some (EditImage (split_comma_1 (data vc)) mime editPrompt))
   \<and> (snd (ImageEditor_handleEdit text_in s) = Some r \<longrightarrow>
      \<not> visual (loading s)
      \<and> (\<exists>held. visualContent s = Some held \<and> vtype held = Image))"
proof -
  have form: "visualContent s = None \<or> (visualContent s = Some vc \<and> vtype vc \<noteq> Image)
        \<or> visual (loading s) \<longrightarrow>
      ImageEditor_handleEdit text_in s = (s, None) \<and> fire (SubmitEdit text_in) s = s"
    by (auto simp add: ImageEditor_handleEdit_def ImageEditor_rendered_def)
  have absent: "visualContent s = None \<longrightarrow>
      handleImageEdit_begin editPrompt s = (s, None) \<and> handleImageEdit ai editPrompt s = s"
    by (simp add: handleImageEdit_def handleImageEdit_begin_def)
  have other: "visualContent s = Some vc
        \<and> (vtype vc \<noteq> Image \<or> mimeType vc = None \<or> mimeType vc = Some []) \<longrightarrow>
      handleImageEdit_begin editPrompt s = (s, None) \<and> handleImageEdit ai editPrompt s = s"
    by (auto simp add: handleImageEdit_def handleImageEdit_begin_def split: option.splits)
  have valid: "visualContent s = Some vc \<and> vtype vc = Image \<and> mimeType vc = Some mime
        \<and> mime \<noteq> [] \<longrightarrow>
      snd (handleImageEdit_begin editPrompt s)
        = Some (EditImage (split_comma_1 (data vc)) mime editPrompt)"
    by (simp add: handleImageEdit_begin_def)
  have issued: "snd (ImageEditor_handleEdit text_in s) = Some r \<longrightarrow>
      \<not> visual (loading s)
      \<and> (\<exists>held. visualContent s = Some held \<and> vtype held = Image)"
    by (auto simp add: ImageEditor_handleEdit_def ImageEditor_rendered_def
        split: if_splits option.splits)
  show ?thesis
    by (intro conjI) (fact form, fact absent, fact other, fact valid, fact issued)
qed

theorem edit_ignored_when_invalid_witness:
  "visualContent (initialState []) = None
   \<and> handleImageEdit_begin ''add labels'' (initialState []) = (initialState [], None)
   \<and> ImageEditor_handleEdit ''add labels'' (initialState []) = (initialState [], None)
   \<and> fire (SubmitEdit ''add labels'') (initialState []) = initialState []
   \<and> visualContent videoShown
       = Some \<lparr>vtype = Video, data = ''blob:https://app.example/1'', mimeType = None\<rparr>
   \<and> handleImageEdit_begin ''add labels'' videoShown = (videoShown, None)
   \<and> ImageEditor_handleEdit ''add labels'' videoShown = (videoShown, None)
   \<and> fire (SubmitEdit ''add labels'') videoShown = videoShown
   \<and> visual (loading editPending)
   \<and> ImageEditor_handleEdit ''zoom in'' editPending = (editPending, None)
   \<and> fire (SubmitEdit ''zoom in'') editPending = editPending
   \<and> visualContent imageShown
       = Some \<lparr>vtype = Image, data = ''data:image/png;base64,iVBORw0KGgo='',
                mimeType = Some ''image/png''\<rparr>
   \<and> snd (handleImageEdit_begin ''add labels'' imageShown)
       = Some (EditImage (Some ''iVBORw0KGgo='') ''image/png'' ''add labels'')
   \<and> snd (ImageEditor_handleEdit '' add labels '' imageShown)
       = Some (EditImage (Some ''iVBORw0KGgo='') ''image/png'' ''add labels'')
   \<and> \<not> visual (loading imageShown)"
proof -
  have a: "visualContent (initialState []) = None"
    by (simp add: initialState_def)
  have b: "visualContent videoShown
       = Some \<lparr>vtype = Video, data = ''blob:https://app.example/1'', mimeType = None\<rparr>"
    by (simp add: videoShown_def)
  have c: "visual (loading editPending)"
    by code_simp
  have d: "visualContent imageShown
       = Some \<lparr>vtype = Image, data = ''data:image/png;base64,iVBORw0KGgo='',
                mimeType = Some ''image/png''\<rparr>"
    by (simp add: imageShown_def)
  have e: "snd (ImageEditor_handleEdit '' add labels '' imageShown)
       = Some (EditImage (Some ''iVBORw0KGgo='') ''image/png'' ''add labels'')"
    by code_simp
  from a b c d e
    edit_ignored_when_invalid [where s = "initialState []" and editPrompt = "''add labels''"
      and text_in = "''add labels''"]
    edit_ignored_when_invalid [where s = videoShown and editPrompt = "''add labels''"
      and text_in = "''add labels''"
      and vc = "\<lparr>vtype = Video, data = ''blob:https://app.example/1'', mimeType = None\<rparr>"]
    edit_ignored_when_invalid [where s = editPending and text_in = "''zoom in''"]
    edit_ignored_when_invalid [where s = imageShown and editPrompt = "''add labels''"
      and mime = "''image/png''" and text_in = "'' add labels ''"
      and r = "EditImage (Some ''iVBORw0KGgo='') ''image/png'' ''add labels''"
      and vc = "\<lparr>vtype = Image, data = ''data:image/png;base64,iVBORw0KGgo='',
                 mimeType = Some ''image/png''\<rparr>"]
  show ?thesis by (simp add: split_comma_1_def)
qed

lemma handleImageEdit_settle_success:
  "visualContent (handleImageEdit_settle (Inr (base64, mime)) s)
     = Some \<lparr>vtype = Image, data = imageDataUrl mime base64, mimeType = Some mime\<rparr>
   \<and> simulationPlan (handleImageEdit_settle (Inr (base64, mime)) s) = simulationPlan s
   \<and> currentStepIndex (handleImageEdit_settle (Inr (base64, mime)) s) = currentStepIndex s
   \<and> topic (handleImageEdit_settle (Inr (base64, mime)) s) = topic s
   \<and> videoStatus (handleImageEdit_settle (Inr (base64, mime)) s) = videoStatus s
   \<and> error (handleImageEdit_settle (Inr (base64, mime)) s) = error s
   \<and> location_search (handleImageEdit_settle (Inr (base64, mime)) s) = location_search s
   \<and> loading (handleImageEdit_settle (Inr (base64, mime)) s) = (loading s)\<lparr>visual := False\<rparr>"
  by (simp add: handleImageEdit_settle_def Let_def)

lemma handleImageEdit_begin_valid:
  assumes "visualContent s = Some vc" and "vtype vc = Image"
    and "mimeType vc = Some mime" and "mime \<noteq> []"
  shows "handleImageEdit_begin editPrompt s =
    (s\<lparr>loading := (loading s)\<lparr>visual := True\<rparr>, error := None\<rparr>,
     Some (EditImage (split_comma_1 (data vc)) mime editPrompt))"
  by (simp add: handleImageEdit_begin_def assms)

text \<open>
  Claim C9. In every state whose visual content is an image with a MIME type, an edit
  that succeeds replaces the visual content by the new image and leaves the plan and the
  current index as they are; so are the topic, the video status and the URL. The error
  message is empty and the visual loading flag is off afterwards, so from a state that
  shows the image (no error message, nothing loading) the edit changes the visual
  content and nothing else. The rest of the handler keeps the plan and the index of
  whatever state it resumes in.
\<close>

theorem edit_replaces_image_only:
  assumes "visualContent s = Some vc" and "vtype vc = Image"
    and "mimeType vc = Some mime" and "mime \<noteq> []"
    and "editImage ai (split_comma_1 (data vc)) mime editPrompt = Inr (base64, newMime)"
  shows "visualContent (handleImageEdit ai editPrompt s)
      = Some \<lparr>vtype = Image, data = imageDataUrl newMime base64, mimeType = Some newMime\<rparr>
    \<and> simulationPlan (handleImageEdit ai editPrompt s) = simulationPlan s
    \<and> currentStepIndex (handleImageEdit ai editPrompt s) = currentStepIndex s
    \<and> topic (handleImageEdit ai editPrompt s) = topic s
    \<and> videoStatus (handleImageEdit ai editPrompt s) = videoStatus s
    \<and> location_search (handleImageEdit ai editPrompt s) = location_search s
    \<and> error (handleImageEdit ai editPrompt s) = None
    \<and> loading (handleImageEdit ai editPrompt s) = (loading s)\<lparr>visual := False\<rparr>
    \<and> (error s = None \<and> \<not> visual (loading s) \<longrightarrow>
         handleImageEdit ai editPrompt s
           = s\<lparr>visualContent :=
                 Some \<lparr>vtype = Image, data = imageDataUrl newMime base64,
                        mimeType = Some newMime\<rparr>\<rparr>)
    \<and> simulationPlan (handleImageEdit_settle (Inr (base64, newMime)) later) = simulationPlan later
    \<and> currentStepIndex (handleImageEdit_settle (Inr (base64, newMime)) later)
        = currentStepIndex later"
proof -
  have run: "handleImageEdit ai editPrompt s
      = handleImageEdit_settle (Inr (base64, newMime))
          (s\<lparr>loading := (loading s)\<lparr>visual := True\<rparr>, error := None\<rparr>)"
    by (simp add: handleImageEdit_def handleImageEdit_begin_valid [OF assms(1-4)] assms(5))
  have only: "error s = None \<and> \<not> visual (loading s) \<longrightarrow>
         handleImageEdit ai editPrompt s
           = s\<lparr>visualContent :=
                 Some \<lparr>vtype = Image, data = imageDataUrl newMime base64,
                        mimeType = Some newMime\<rparr>\<rparr>"
    by (simp add: run handleImageEdit_settle_def Let_def)
  show ?thesis
    using handleImageEdit_settle_success [of base64 newMime
        "s\<lparr>loading := (loading s)\<lparr>visual := True\<rparr>, error := None\<rparr>"]
      handleImageEdit_settle_success [of base64 newMime later] only
    by (simp add: run)
qed

theorem edit_replaces_image_only_witness:
  "visualContent imageShown
      = Some \<lparr>vtype = Image, data = ''data:image/png;base64,iVBORw0KGgo='',
               mimeType = Some ''image/png''\<rparr>
   \<and> editImage threePolls (Some ''iVBORw0KGgo='') ''image/png'' ''add labels''
      = Inr (''R0lGODlh'', ''image/gif'')
   \<and> visualContent (handleImageEdit threePolls ''add labels'' imageShown)
      = Some \<lparr>vtype = Image, data = ''data:image/gif;base64,R0lGODlh'',
               mimeType = Some ''image/gif''\<rparr>
   \<and> simulationPlan (handleImageEdit threePolls ''add labels'' imageShown) = photosynthesisPlan
   \<and> currentStepIndex (handleImageEdit threePolls ''add labels'' imageShown) = 2"
proof -
  have v: "visualContent imageShown
      = Some \<lparr>vtype = Image, data = ''data:image/png;base64,iVBORw0KGgo='',
               mimeType = Some ''image/png''\<rparr>"
    by (simp add: imageShown_def)
  have e: "editImage threePolls
      (split_comma_1 (data \<lparr>vtype = Image, data = ''data:image/png;base64,iVBORw0KGgo='',
                            mimeType = Some ''image/png''\<rparr>))
      ''image/png'' ''add labels'' = Inr (''R0lGODlh'', ''image/gif'')"
    by code_simp
  have e': "editImage threePolls (Some ''iVBORw0KGgo='') ''image/png'' ''add labels''
      = Inr (''R0lGODlh'', ''image/gif'')"
    by code_simp
  have p: "simulationPlan imageShown = photosynthesisPlan \<and> currentStepIndex imageShown = 2"
    by (simp add: imageShown_def)
  from v e' p edit_replaces_image_only [OF v _ _ _ e, of imageShown]
  show ?thesis by (simp add: imageDataUrl_def)
qed

section \<open>Progress messages of a video job\<close>



text \<open>
  The loop does not return while the job keeps reporting not-done: \<open>None\<close> stands
  for a run that never ends, not for a result.
\<close>

lemma poll_loop_never_returns:
  assumes "poll_loop poll polled operation messageIndex progress = Some y"
    and "\<not> op_done operation"
    and "\<forall>k. \<exists>operation'. poll k = Inr operation' \<and> \<not> op_done operation'"
  shows False
proof -
  have "\<not> op_done operation
      \<longrightarrow> (\<forall>k. \<exists>operation'. poll k = Inr operation' \<and> \<not> op_done operation') \<longrightarrow> False"
  proof (rule poll_loop.raw_induct [where P = "\<lambda>poll polled operation messageIndex progress y.
      \<not> op_done operation
      \<longrightarrow> (\<forall>k. \<exists>operation'. poll k = Inr operation' \<and> \<not> op_done operation') \<longrightarrow> False",
      OF _ assms(1)])
    fix loop :: "(nat \<Rightarrow> exn + operation) \<Rightarrow> nat \<Rightarrow> operation \<Rightarrow> nat \<Rightarrow> string list
        \<Rightarrow> ((exn + operation) \<times> string list) option"
    fix poll polled operation messageIndex progress y
    assume IH: "\<And>poll polled operation messageIndex progress y.
        loop poll polled operation messageIndex progress = Some y \<Longrightarrow>
        \<not> op_done operation
        \<longrightarrow> (\<forall>k. \<exists>operation'. poll k = Inr operation' \<and> \<not> op_done operation') \<longrightarrow> False"
    assume step: "(if \<not> op_done operation then
         (case poll polled of
            Inl e \<Rightarrow>
              Some (Inl e,
                progress @ [videoGenerationMessages ! (messageIndex mod length videoGenerationMessages)])
          | Inr operation' \<Rightarrow>
              loop poll (Suc polled) operation' (messageIndex + 1)
                (progress @ [videoGenerationMessages ! (messageIndex mod length videoGenerationMessages)]))
       else Some (Inr operation, progress)) = Some y"
    show "\<not> op_done operation
        \<longrightarrow> (\<forall>k. \<exists>operation'. poll k = Inr operation' \<and> \<not> op_done operation') \<longrightarrow> False"
    proof (intro impI)
      assume not_done: "\<not> op_done operation"
        and always: "\<forall>k. \<exists>operation'. poll k = Inr operation' \<and> \<not> op_done operation'"
      from always obtain operation' where
        p: "poll polled = Inr operation'" and nd: "\<not> op_done operation'"
        by blast
      from step not_done p
      have "loop poll (Suc polled) operation' (messageIndex + 1)
          (progress @ [videoGenerationMessages ! (messageIndex mod length videoGenerationMessages)])
          = Some y"
        by simp
      from IH [OF this] nd always show False by blast
    qed
  qed
  with assms(2,3) show False by blast
qed

text \<open>
  A job that never reports completion: \<^verbatim>\<open>generateVideo\<close> does not return, so no video
  and no error reaches the caller.
\<close>

lemma generateVideo_never_returns:
  assumes "generateVideos ai prompt_in style = Inr started" and "\<not> op_done started"
    and "\<forall>k. \<exists>operation'. getVideosOperation ai k = Inr operation' \<and> \<not> op_done operation'"
  shows "generateVideo ai prompt_in style = None"
proof -
  have "poll_loop (getVideosOperation ai) 0 started 1 [videoGenerationMessages ! 0] = None"
    using poll_loop_never_returns [OF _ assms(2) assms(3)]
    by (cases "poll_loop (getVideosOperation ai) 0 started 1 [videoGenerationMessages ! 0]") auto
  then show ?thesis
    by (simp add: generateVideo_def assms(1))
qed







section \<open>A plan request that fails\<close>

text \<open>
  With an empty plan \<^verbatim>\<open>SimulationViewer\<close> returns before it draws its panels, and with
  them the only element that shows the error message.
\<close>

lemma empty_plan_shows_no_error:
  "simulationPlan s = [] \<Longrightarrow> \<not> viewer_rendered s \<and> displayedError s = None"
  by (simp add: viewer_rendered_def displayedError_def)

lemma settle_failure:
  "error (handleTopicSubmit_settle (Inl e) s) = Some (errorMessage e ''An unknown error occurred.'')
   \<and> simulationPlan (handleTopicSubmit_settle (Inl e) s) = simulationPlan s"
  by (simp add: handleTopicSubmit_settle_def Let_def)

text \<open>
  \<^verbatim>\<open>generateSimulationPlan\<close> has no test of its own for an empty array: on the reply
  \<^verbatim>\<open>[]\<close>, parsed to the empty array, it returns the array, and the message for it is
  the caller's.
\<close>

lemma empty_array_is_returned:
  "plan_reply threePolls ''Photosynthesis'' Image = Inr ''[]''
   \<and> parseEmptyArray (trim ''[]'') = Some []
   \<and> generateSimulationPlan threePolls parseEmptyArray ''Photosynthesis'' Image = Inr []"
  by code_simp

text \<open>
  Claim C3 does not hold of the code where it says that the error message is visible
  to the user. When \<^verbatim>\<open>JSON.parse\<close> throws on the reply, \<^verbatim>\<open>generateSimulationPlan\<close>
  fails with the plan-format error. Whenever \<^verbatim>\<open>generateSimulationPlan\<close> fails, and
  whenever it returns an empty array, \<^verbatim>\<open>handleTopicSubmit\<close> stores a message in
  \<^verbatim>\<open>error\<close> and the stored plan stays empty; but then \<^verbatim>\<open>SimulationViewer\<close> draws
  nothing, and nothing else draws \<^verbatim>\<open>error\<close>: the message is on the screen in no state
  with an empty plan.
\<close>

theorem plan_error_is_not_displayed:
  "(plan_reply ai t ty = Inr response_text \<and> JSON_parse (trim response_text) = None \<longrightarrow>
      generateSimulationPlan ai JSON_parse t ty
        = Inl (Error ''The AI returned an invalid lesson plan format. Please try again.''))
   \<and> (generateSimulationPlan ai JSON_parse t ty = Inl e \<longrightarrow>
        error (handleTopicSubmit ai JSON_parse t ty s)
          = Some (errorMessage e ''An unknown error occurred.'')
        \<and> simulationPlan (handleTopicSubmit ai JSON_parse t ty s) = []
        \<and> \<not> viewer_rendered (handleTopicSubmit ai JSON_parse t ty s)
        \<and> displayedError (handleTopicSubmit ai JSON_parse t ty s) = None)
   \<and> (generateSimulationPlan ai JSON_parse t ty = Inr [] \<longrightarrow>
        error (handleTopicSubmit ai JSON_parse t ty s)
          = Some ''Could not generate a simulation plan for this topic. Please try another one.''
        \<and> simulationPlan (handleTopicSubmit ai JSON_parse t ty s) = []
        \<and> \<not> viewer_rendered (handleTopicSubmit ai JSON_parse t ty s)
        \<and> displayedError (handleTopicSubmit ai JSON_parse t ty s) = None)
   \<and> (simulationPlan s = [] \<longrightarrow> displayedError s = None)"
proof -
  have a: "plan_reply ai t ty = Inr response_text \<and> JSON_parse (trim response_text) = None \<longrightarrow>
      generateSimulationPlan ai JSON_parse t ty
        = Inl (Error ''The AI returned an invalid lesson plan format. Please try again.'')"
    by (simp add: generateSimulationPlan_def)
  have b: "generateSimulationPlan ai JSON_parse t ty = Inl e \<longrightarrow>
        error (handleTopicSubmit ai JSON_parse t ty s)
          = Some (errorMessage e ''An unknown error occurred.'')
        \<and> simulationPlan (handleTopicSubmit ai JSON_parse t ty s) = []
        \<and> \<not> viewer_rendered (handleTopicSubmit ai JSON_parse t ty s)
        \<and> displayedError (handleTopicSubmit ai JSON_parse t ty s) = None"
  proof
    assume f: "generateSimulationPlan ai JSON_parse t ty = Inl e"
    have p: "error (handleTopicSubmit ai JSON_parse t ty s)
          = Some (errorMessage e ''An unknown error occurred.'')
        \<and> simulationPlan (handleTopicSubmit ai JSON_parse t ty s) = []"
      using settle_failure [of e "fst (handleTopicSubmit_begin t ty s)"]
        handleTopicSubmit_begin_fields [of t ty s]
      by (simp add: handleTopicSubmit_def f)
    with empty_plan_shows_no_error [of "handleTopicSubmit ai JSON_parse t ty s"]
    show "error (handleTopicSubmit ai JSON_parse t ty s)
          = Some (errorMessage e ''An unknown error occurred.'')
        \<and> simulationPlan (handleTopicSubmit ai JSON_parse t ty s) = []
        \<and> \<not> viewer_rendered (handleTopicSubmit ai JSON_parse t ty s)
        \<and> displayedError (handleTopicSubmit ai JSON_parse t ty s) = None"
      by simp
  qed
  have c: "generateSimulationPlan ai JSON_parse t ty = Inr [] \<longrightarrow>
        error (handleTopicSubmit ai JSON_parse t ty s)
          = Some ''Could not generate a simulation plan for this topic. Please try another one.''
        \<and> simulationPlan (handleTopicSubmit ai JSON_parse t ty s) = []
        \<and> \<not> viewer_rendered (handleTopicSubmit ai JSON_parse t ty s)
        \<and> displayedError (handleTopicSubmit ai JSON_parse t ty s) = None"
  proof
    assume f: "generateSimulationPlan ai JSON_parse t ty = Inr []"
    have p: "error (handleTopicSubmit ai JSON_parse t ty s)
          = Some ''Could not generate a simulation plan for this topic. Please try another one.''
        \<and> simulationPlan (handleTopicSubmit ai JSON_parse t ty s) = []"
      using settle_empty_plan [of "fst (handleTopicSubmit_begin t ty s)"]
        handleTopicSubmit_begin_fields [of t ty s]
      by (simp add: handleTopicSubmit_def f)
    with empty_plan_shows_no_error [of "handleTopicSubmit ai JSON_parse t ty s"]
    show "error (handleTopicSubmit ai JSON_parse t ty s)
          = Some ''Could not generate a simulation plan for this topic. Please try another one.''
        \<and> simulationPlan (handleTopicSubmit ai JSON_parse t ty s) = []
        \<and> \<not> viewer_rendered (handleTopicSubmit ai JSON_parse t ty s)
        \<and> displayedError (handleTopicSubmit ai JSON_parse t ty s) = None"
      by simp
  qed
  have d: "simulationPlan s = [] \<longrightarrow> displayedError s = None"
    using empty_plan_shows_no_error [of s] by simp
  show ?thesis by (intro conjI) (fact a, fact b, fact c, fact d)
qed

text \<open>
  A reply that is not JSON, and the reply \<^verbatim>\<open>[]\<close>, to a topic submitted on the page as
  it is first shown: the message is stored and not displayed. The message of a failed
  edit, in a state with a plan, is displayed.
\<close>

theorem plan_error_is_not_displayed_witness:
  "plan_reply proseReply ''Photosynthesis'' Image = Inr ''Here is your lesson plan.''
   \<and> parseEmptyArray (trim ''Here is your lesson plan.'') = None
   \<and> generateSimulationPlan proseReply parseEmptyArray ''Photosynthesis'' Image
       = Inl (Error ''The AI returned an invalid lesson plan format. Please try again.'')
   \<and> error (handleTopicSubmit proseReply parseEmptyArray ''Photosynthesis'' Image (initialState []))
       = Some ''The AI returned an invalid lesson plan format. Please try again.''
   \<and> simulationPlan (handleTopicSubmit proseReply parseEmptyArray ''Photosynthesis'' Image
        (initialState [])) = []
   \<and> displayedError (handleTopicSubmit proseReply parseEmptyArray ''Photosynthesis'' Image
        (initialState [])) = None
   \<and> generateSimulationPlan threePolls parseEmptyArray ''Photosynthesis'' Image = Inr []
   \<and> error (handleTopicSubmit threePolls parseEmptyArray ''Photosynthesis'' Image (initialState []))
       = Some ''Could not generate a simulation plan for this topic. Please try another one.''
   \<and> displayedError (handleTopicSubmit threePolls parseEmptyArray ''Photosynthesis'' Image
        (initialState [])) = None
   \<and> simulationPlan (initialState []) = [] \<and> displayedError (initialState []) = None
   \<and> displayedError imageShown = Some ''Failed to edit image.''"
proof -
  have shown: "displayedError imageShown = Some ''Failed to edit image.''"
    by code_simp
  have r1: "plan_reply proseReply ''Photosynthesis'' Image = Inr ''Here is your lesson plan.''"
    by code_simp
  have p1: "parseEmptyArray (trim ''Here is your lesson plan.'') = None"
    by code_simp
  have g2: "generateSimulationPlan threePolls parseEmptyArray ''Photosynthesis'' Image = Inr []"
    by code_simp
  have i: "simulationPlan (initialState []) = []"
    by (simp add: initialState_def)
  from r1 p1
    plan_error_is_not_displayed [where ai = proseReply and t = "''Photosynthesis''"
      and ty = Image and response_text = "''Here is your lesson plan.''"
      and JSON_parse = parseEmptyArray]
  have g1: "generateSimulationPlan proseReply parseEmptyArray ''Photosynthesis'' Image
       = Inl (Error ''The AI returned an invalid lesson plan format. Please try again.'')"
    by simp
  from g1
    plan_error_is_not_displayed [where ai = proseReply and t = "''Photosynthesis''"
      and ty = Image and JSON_parse = parseEmptyArray and s = "initialState []"
      and e = "Error ''The AI returned an invalid lesson plan format. Please try again.''"]
  have f1: "error (handleTopicSubmit proseReply parseEmptyArray ''Photosynthesis'' Image
          (initialState []))
       = Some ''The AI returned an invalid lesson plan format. Please try again.''
     \<and> simulationPlan (handleTopicSubmit proseReply parseEmptyArray ''Photosynthesis'' Image
        (initialState [])) = []
     \<and> displayedError (handleTopicSubmit proseReply parseEmptyArray ''Photosynthesis'' Image
        (initialState [])) = None"
    by simp
  from g2 i
    plan_error_is_not_displayed [where ai = threePolls and t = "''Photosynthesis''"
      and ty = Image and JSON_parse = parseEmptyArray and s = "initialState []"]
  have f2: "error (handleTopicSubmit threePolls parseEmptyArray ''Photosynthesis'' Image
          (initialState []))
       = Some ''Could not generate a simulation plan for this topic. Please try another one.''
     \<and> displayedError (handleTopicSubmit threePolls parseEmptyArray ''Photosynthesis'' Image
        (initialState [])) = None
     \<and> displayedError (initialState []) = None"
    by simp
  from r1 p1 g1 g2 i f1 f2 shown show ?thesis by simp
qed

text \<open>
  The same as a run of the component: the topic is submitted on the page as it is first
  shown, and the plan request fails. The message is stored, the plan is empty, and
  nothing of the viewer is on the screen.
\<close>

lemma failed_plan_request_shows_nothing:
  "error (fire (PlanSettled (Inl (Error ''The AI returned an invalid lesson plan format. Please try again.'')))
            (fire (SubmitTopic ''Photosynthesis'' Image) (initialState [])))
      = Some ''The AI returned an invalid lesson plan format. Please try again.''
   \<and> topic (fire (PlanSettled (Inl (Error ''The AI returned an invalid lesson plan format. Please try again.'')))
            (fire (SubmitTopic ''Photosynthesis'' Image) (initialState []))) = ''Photosynthesis''
   \<and> \<not> viewer_rendered
        (fire (PlanSettled (Inl (Error ''The AI returned an invalid lesson plan format. Please try again.'')))
            (fire (SubmitTopic ''Photosynthesis'' Image) (initialState [])))
   \<and> displayedError
        (fire (PlanSettled (Inl (Error ''The AI returned an invalid lesson plan format. Please try again.'')))
            (fire (SubmitTopic ''Photosynthesis'' Image) (initialState []))) = None"
  by code_simp

section \<open>Loading a shared simulation\<close>

text \<open>Every step, and every plan, is the reading of the object that stands for it.\<close>

lemma asStep_stepJSON: "asStep (stepJSON step) = Some step"
  by (cases "type step") (simp_all add: asStep_def stepJSON_def)

lemma asSteps_stepJSON: "asSteps (map stepJSON steps) = Some steps"
  by (induction steps) (simp_all add: asSteps_def asStep_stepJSON)

lemma loadShared_applied:
  assumes "atob sharedData = Some binary" and "decodeURIComponent binary = Some jsonString"
    and "JSON_parse jsonString = Some (JObject properties)"
    and "map_of properties ''topic'' = Some t" and "truthy t"
    and "map_of properties ''simulationPlan'' = Some (JArray p)" and "p \<noteq> []"
  shows "loadShared JSON_parse sharedData = Some (t, p)"
  using assms by (simp add: loadShared_def)

lemma loadShared_only_if:
  assumes "loadShared JSON_parse sharedData = Some (t, p)"
  shows "\<exists>binary jsonString properties.
      atob sharedData = Some binary \<and> decodeURIComponent binary = Some jsonString
      \<and> JSON_parse jsonString = Some (JObject properties)
      \<and> map_of properties ''topic'' = Some t \<and> truthy t
      \<and> map_of properties ''simulationPlan'' = Some (JArray p) \<and> p \<noteq> []"
proof -
  from assms obtain binary where b: "atob sharedData = Some binary"
    by (auto simp add: loadShared_def split: option.splits)
  from assms b obtain jsonString where d: "decodeURIComponent binary = Some jsonString"
    by (auto simp add: loadShared_def split: option.splits)
  from assms b d obtain parsed where j: "JSON_parse jsonString = Some parsed"
    by (auto simp add: loadShared_def split: option.splits)
  from assms b d j obtain properties where o: "parsed = JObject properties"
    by (cases parsed) (simp_all add: loadShared_def)
  from assms b d j o
  have "map_of properties ''topic'' = Some t \<and> truthy t
      \<and> map_of properties ''simulationPlan'' = Some (JArray p) \<and> p \<noteq> []"
    by (auto simp add: loadShared_def split: option.splits json.splits if_splits)
  with b d j o show ?thesis by blast
qed

text \<open>
  Claim C10, as the code has it. When the page loads with a \<^verbatim>\<open>simulation\<close> parameter
  whose value is not empty, the shared state is applied exactly when the value decodes
  (\<^verbatim>\<open>atob\<close>, then \<^verbatim>\<open>decodeURIComponent\<close>), parses, and the parsed value is an object
  with a truthy property \<^verbatim>\<open>topic\<close> and a property \<^verbatim>\<open>simulationPlan\<close> that is an array
  and not empty. Neither the type of the topic nor the elements of the array are
  checked: the two cells get these values whatever they are, a string and steps or not.
  For every other value that is not empty the topic, the plan and all the rest of the
  state stay as they are and no error message is set. In all these cases the query is
  removed from the URL. A parameter with an empty value is treated as no parameter:
  nothing changes, and the URL keeps it.
\<close>

theorem shared_link_applied_or_rejected:
  "(loadShared JSON_parse sharedData = Some (t, p) \<longleftrightarrow>
      (\<exists>binary jsonString properties.
          atob sharedData = Some binary \<and> decodeURIComponent binary = Some jsonString
          \<and> JSON_parse jsonString = Some (JObject properties)
          \<and> map_of properties ''topic'' = Some t \<and> truthy t
          \<and> map_of properties ''simulationPlan'' = Some (JArray p) \<and> p \<noteq> []))
   \<and> (URLSearchParams_get (location_search s) ''simulation'' = Some sharedData \<and> sharedData \<noteq> []
      \<and> loadShared JSON_parse sharedData = Some (JString sharedTopic, p)
      \<and> asSteps p = Some steps
     \<longrightarrow> loadSimulationFromURL JSON_parse s
          = Typed (s\<lparr>topic := sharedTopic, simulationPlan := steps, location_search := []\<rparr>))
   \<and> (URLSearchParams_get (location_search s) ''simulation'' = Some sharedData \<and> sharedData \<noteq> []
      \<and> loadShared JSON_parse sharedData = Some (t, p)
      \<and> (asString t = None \<or> asSteps p = None)
     \<longrightarrow> loadSimulationFromURL JSON_parse s = Untyped t p (s\<lparr>location_search := []\<rparr>))
   \<and> (URLSearchParams_get (location_search s) ''simulation'' = Some sharedData \<and> sharedData \<noteq> []
      \<and> loadShared JSON_parse sharedData = None
     \<longrightarrow> loadSimulationFromURL JSON_parse s = Typed (s\<lparr>location_search := []\<rparr>))
   \<and> (URLSearchParams_get (location_search s) ''simulation'' = None
      \<or> URLSearchParams_get (location_search s) ''simulation'' = Some []
     \<longrightarrow> loadSimulationFromURL JSON_parse s = Typed s)"
proof -
  have a: "loadShared JSON_parse sharedData = Some (t, p) \<longleftrightarrow>
      (\<exists>binary jsonString properties.
          atob sharedData = Some binary \<and> decodeURIComponent binary = Some jsonString
          \<and> JSON_parse jsonString = Some (JObject properties)
          \<and> map_of properties ''topic'' = Some t \<and> truthy t
          \<and> map_of properties ''simulationPlan'' = Some (JArray p) \<and> p \<noteq> [])"
    using loadShared_only_if [of JSON_parse sharedData t p] loadShared_applied [of sharedData]
    by blast
  have b: "URLSearchParams_get (location_search s) ''simulation'' = Some sharedData \<and> sharedData \<noteq> []
      \<and> loadShared JSON_parse sharedData = Some (JString sharedTopic, p)
      \<and> asSteps p = Some steps
     \<longrightarrow> loadSimulationFromURL JSON_parse s
          = Typed (s\<lparr>topic := sharedTopic, simulationPlan := steps, location_search := []\<rparr>)"
    by (simp add: loadSimulationFromURL_def)
  have c: "URLSearchParams_get (location_search s) ''simulation'' = Some sharedData \<and> sharedData \<noteq> []
      \<and> loadShared JSON_parse sharedData = Some (t, p)
      \<and> (asString t = None \<or> asSteps p = None)
     \<longrightarrow> loadSimulationFromURL JSON_parse s = Untyped t p (s\<lparr>location_search := []\<rparr>)"
    by (auto simp add: loadSimulationFromURL_def split: option.splits)
  have d: "URLSearchParams_get (location_search s) ''simulation'' = Some sharedData \<and> sharedData \<noteq> []
      \<and> loadShared JSON_parse sharedData = None
     \<longrightarrow> loadSimulationFromURL JSON_parse s = Typed (s\<lparr>location_search := []\<rparr>)"
    by (simp add: loadSimulationFromURL_def)
  have e: "URLSearchParams_get (location_search s) ''simulation'' = None
      \<or> URLSearchParams_get (location_search s) ''simulation'' = Some []
     \<longrightarrow> loadSimulationFromURL JSON_parse s = Typed s"
    by (auto simp add: loadSimulationFromURL_def)
  show ?thesis by (intro conjI) (fact a, fact b, fact c, fact d, fact e)
qed

text \<open>
  A link that is applied, a link whose parameter \<^verbatim>\<open>atob\<close> rejects, a link whose value
  is applied without being a topic and steps, and a query without the parameter.
\<close>

theorem shared_link_applied_or_rejected_witness:
  "URLSearchParams_get (location_search_of_url mitosisLink) ''simulation'' = Some mitosisParam
   \<and> mitosisParam \<noteq> []
   \<and> Option.bind (atob mitosisParam) decodeURIComponent
       = Some (JSON_stringify_share ''Mitosis'' [imageStep ''Prophase''])
   \<and> loadShared parseMitosis mitosisParam
       = Some (JString ''Mitosis'', [stepJSON (imageStep ''Prophase'')])
   \<and> loadSimulationFromURL parseMitosis (initialState (location_search_of_url mitosisLink))
       = Typed ((initialState [])\<lparr>topic := ''Mitosis'', simulationPlan := [imageStep ''Prophase'']\<rparr>)
   \<and> URLSearchParams_get ''?simulation=%7B%7D'' ''simulation'' = Some ''{}''
   \<and> atob ''{}'' = None
   \<and> loadSimulationFromURL parseMitosis (initialState ''?simulation=%7B%7D'')
       = Typed (initialState [])
   \<and> URLSearchParams_get (''?simulation='' @ uncheckedParam) ''simulation'' = Some uncheckedParam
   \<and> loadShared parseUnchecked uncheckedParam
       = Some (JNumber (Finite False 7 0), [JNumber (Finite False 1 0)])
   \<and> loadSimulationFromURL parseUnchecked (initialState (''?simulation='' @ uncheckedParam))
       = Untyped (JNumber (Finite False 7 0)) [JNumber (Finite False 1 0)] (initialState [])
   \<and> URLSearchParams_get ''?lang=en'' ''simulation'' = None
   \<and> loadSimulationFromURL parseMitosis (initialState ''?lang=en'')
       = Typed (initialState ''?lang=en'')"
proof -
  have i: "location_search (initialState x) = x
      \<and> (initialState x)\<lparr>location_search := []\<rparr> = initialState []" for x
    by (simp add: initialState_def)
  have g1: "URLSearchParams_get (location_search_of_url mitosisLink) ''simulation''
      = Some mitosisParam"
    by code_simp
  have n1: "mitosisParam \<noteq> []"
    by code_simp
  have b1: "atob mitosisParam
      = Some (encodeURIComponent (JSON_stringify_share ''Mitosis'' [imageStep ''Prophase'']))"
    by code_simp
  have d1: "decodeURIComponent
        (encodeURIComponent (JSON_stringify_share ''Mitosis'' [imageStep ''Prophase'']))
      = Some (JSON_stringify_share ''Mitosis'' [imageStep ''Prophase''])"
    by code_simp
  have p1: "parseMitosis (JSON_stringify_share ''Mitosis'' [imageStep ''Prophase''])
      = Some (JObject [(''topic'', JString ''Mitosis''),
                       (''simulationPlan'', JArray [stepJSON (imageStep ''Prophase'')])])"
    by (simp add: parseMitosis_def)
  from b1 d1 p1
    shared_link_applied_or_rejected [where JSON_parse = parseMitosis
      and sharedData = mitosisParam and t = "JString ''Mitosis''"
      and p = "[stepJSON (imageStep ''Prophase'')]"]
  have l1: "loadShared parseMitosis mitosisParam
      = Some (JString ''Mitosis'', [stepJSON (imageStep ''Prophase'')])"
    by simp
  have s1: "asSteps [stepJSON (imageStep ''Prophase'')] = Some [imageStep ''Prophase'']"
    by code_simp
  from g1 n1 l1 s1 i
    shared_link_applied_or_rejected [where JSON_parse = parseMitosis
      and s = "initialState (location_search_of_url mitosisLink)"
      and sharedData = mitosisParam and sharedTopic = "''Mitosis''"
      and p = "[stepJSON (imageStep ''Prophase'')]" and steps = "[imageStep ''Prophase'']"]
  have r1: "loadSimulationFromURL parseMitosis (initialState (location_search_of_url mitosisLink))
       = Typed ((initialState [])\<lparr>topic := ''Mitosis'', simulationPlan := [imageStep ''Prophase'']\<rparr>)"
    by (simp add: initialState_def)
  have g2: "URLSearchParams_get ''?simulation=%7B%7D'' ''simulation'' = Some ''{}''"
    by code_simp
  have a2: "atob ''{}'' = None"
    by code_simp
  have l2: "loadShared parseMitosis ''{}'' = None"
    by (simp add: loadShared_def a2)
  from g2 l2 i
    shared_link_applied_or_rejected [where JSON_parse = parseMitosis
      and s = "initialState ''?simulation=%7B%7D''" and sharedData = "''{}''"]
  have r2: "loadSimulationFromURL parseMitosis (initialState ''?simulation=%7B%7D'')
       = Typed (initialState [])"
    by simp
  have g3: "URLSearchParams_get (''?simulation='' @ uncheckedParam) ''simulation''
      = Some uncheckedParam"
    by code_simp
  have n3: "uncheckedParam \<noteq> []"
    by code_simp
  have l3: "loadShared parseUnchecked uncheckedParam
       = Some (JNumber (Finite False 7 0), [JNumber (Finite False 1 0)])"
    by code_simp
  from g3 n3 l3 i
    shared_link_applied_or_rejected [where JSON_parse = parseUnchecked
      and s = "initialState (''?simulation='' @ uncheckedParam)" and sharedData = uncheckedParam
      and t = "JNumber (Finite False 7 0)" and p = "[JNumber (Finite False 1 0)]"]
  have r3: "loadSimulationFromURL parseUnchecked (initialState (''?simulation='' @ uncheckedParam))
       = Untyped (JNumber (Finite False 7 0)) [JNumber (Finite False 1 0)] (initialState [])"
    by simp
  have g4: "URLSearchParams_get ''?lang=en'' ''simulation'' = None"
    by code_simp
  from g4 i
    shared_link_applied_or_rejected [where JSON_parse = parseMitosis
      and s = "initialState ''?lang=en''"]
  have r4: "loadSimulationFromURL parseMitosis (initialState ''?lang=en'')
      = Typed (initialState ''?lang=en'')"
    by simp
  from g1 n1 b1 d1 l1 r1 g2 a2 r2 g3 l3 r3 g4 r4 show ?thesis by simp
qed

text \<open>
  The claim fails in two places. Where it says that the parameter is removed in all
  cases: a page loaded with \<^verbatim>\<open>?simulation=\<close> has the parameter, with an empty value,
  and keeps it. And where it says that only a topic with a step array is applied: the
  value that encodes \<^verbatim>\<open>{"topic":7,"simulationPlan":[1]}\<close> is applied, and leaves the
  number 7 as the topic and an array that holds the number 1 as the plan.
\<close>

theorem parameter_kept_or_applied_unchecked:
  "URLSearchParams_get ''?simulation='' ''simulation'' = Some []
   \<and> loadSimulationFromURL noSharedJSON (initialState ''?simulation='')
       = Typed (initialState ''?simulation='')
   \<and> location_search (initialState ''?simulation='') = ''?simulation=''
   \<and> URLSearchParams_get (''?simulation='' @ uncheckedParam) ''simulation'' = Some uncheckedParam
   \<and> Option.bind (atob uncheckedParam) decodeURIComponent = Some uncheckedJSON
   \<and> parseUnchecked uncheckedJSON
       = Some (JObject [(''topic'', JNumber (Finite False 7 0)),
                        (''simulationPlan'', JArray [JNumber (Finite False 1 0)])])
   \<and> loadSimulationFromURL parseUnchecked (initialState (''?simulation='' @ uncheckedParam))
       = Untyped (JNumber (Finite False 7 0)) [JNumber (Finite False 1 0)] (initialState [])"
  by code_simp

section \<open>The share link of a topic with a tilde\<close>

text \<open>
  Claim C7 does not hold of the code. \<^verbatim>\<open>encodeURIComponent\<close> leaves a tilde as it is,
  and a tilde that is the third byte of a base64 group is encoded with the character
  \<^verbatim>\<open>+\<close>. \<^verbatim>\<open>handleShare\<close> puts the base64 text into the query unescaped, and
  \<^verbatim>\<open>URLSearchParams\<close> reads a \<^verbatim>\<open>+\<close> of a query as a space. For the topic
  \<^verbatim>\<open>ATP ~30 kJ\<close> the value that \<^verbatim>\<open>loadSimulationFromURL\<close> gets is therefore not the
  value that \<^verbatim>\<open>handleShare\<close> wrote; \<^verbatim>\<open>atob\<close> throws on it, and the page opened at the
  link shows no topic and no plan, whatever \<^verbatim>\<open>JSON.parse\<close> does.
\<close>

theorem share_link_with_tilde_is_rejected:
  "ShareButton_rendered atpShared
   \<and> topic atpShared = ''ATP ~30 kJ''
   \<and> simulationPlan atpShared = [imageStep ''ATP hydrolysis'']
   \<and> handleShare ''https://biosim.example'' ''/'' atpShared = Some atpLink
   \<and> URLSearchParams_get (location_search_of_url atpLink) ''simulation''
       = Some (plusToSpace atpParam)
   \<and> plusToSpace atpParam \<noteq> atpParam
   \<and> atob (plusToSpace atpParam) = None
   \<and> mount JSON_parse (location_search_of_url atpLink) = Some (initialState [], None)"
  by code_simp

text \<open>
  The same run on the topic \<^verbatim>\<open>Mitosis\<close>, whose link has no \<^verbatim>\<open>+\<close>: the page opened
  at the link shows the topic and the plan, and requests the image of the first step.
\<close>

lemma share_link_without_tilde_is_applied:
  "handleShare ''https://biosim.example'' ''/'' mitosisShared = Some mitosisLink
   \<and> map_option (\<lambda>mounted. (topic (fst mounted), simulationPlan (fst mounted), snd mounted))
        (mount parseMitosis (location_search_of_url mitosisLink))
       = Some (topic mitosisShared, simulationPlan mitosisShared,
               Some (GenerateImage ''A labeled diagram.''))"
  by code_simp

end
